theory Spec2Isabelle
  imports Main
begin

section \<open>Python values\<close>

text \<open>
  A Python \<open>str\<close> is a sequence of Unicode code points; it is modelled as a list of
  natural numbers, so that labels outside ASCII (the files are read as CP1250) are
  inputs of the model. \<open>py\<close> turns an ASCII literal into such a string.
\<close>

type_synonym pystr = "nat list"

definition py :: "string \<Rightarrow> pystr" where
  "py cs = map of_char cs"

text \<open>The exception classes that the two connectors raise, catch or let through.\<close>

datatype exn =
    NotFound
  | ValueError pystr
  | BadRequest pystr
  | KeyError
  | IndexError
  | TypeError
  | AttributeError
  | UnboundLocalError
  | OtherError pystr

text \<open>A call either raises or returns; the state reached is kept in both cases.\<close>

datatype 'a outcome = Raise exn | Return 'a

text \<open>
  \<open>str.replace(old, new)\<close>: the occurrences of \<open>old\<close> are replaced from left to right
  without overlap; with an empty \<open>old\<close> Python puts \<open>new\<close> around every character.
\<close>

fun replace :: "'a list \<Rightarrow> 'a list \<Rightarrow> 'a list \<Rightarrow> 'a list" where
  "replace [] new s = new @ concat (map (\<lambda>c. c # new) s)"
| "replace old new [] = []"
| "replace old new (c # cs) =
     (if take (length old) (c # cs) = old
      then new @ replace old new (drop (length old) (c # cs))
      else c # replace old new cs)"

text \<open>\<open>sep.join(xs)\<close>.\<close>

fun join :: "'a list \<Rightarrow> 'a list list \<Rightarrow> 'a list" where
  "join sep [] = []"
| "join sep [x] = x"
| "join sep (x # y # ys) = x @ sep @ join sep (y # ys)"

text \<open>\<open>s.split(sep)\<close> for a separator of one character; the result is never empty.\<close>

fun split_on :: "'a \<Rightarrow> 'a list \<Rightarrow> 'a list list" where
  "split_on sep [] = [[]]"
| "split_on sep (c # cs) =
     (if c = sep then [] # split_on sep cs
      else (case split_on sep cs of
              [] \<Rightarrow> [[c]]
            | p # ps \<Rightarrow> (c # p) # ps))"

text \<open>\<open>sub in s\<close> on strings: \<open>sub\<close> occurs in \<open>s\<close> as a contiguous run.\<close>

fun contains :: "'a list \<Rightarrow> 'a list \<Rightarrow> bool" where
  "contains sub [] = (sub = [])"
| "contains sub (c # cs) = (take (length sub) (c # cs) = sub \<or> contains sub cs)"


section \<open>Column-name normalisation (google_shared_drive_connector.py)\<close>

text \<open>\<open>chars_to_replace = [' ', '%', '-', '(', ')', '[', ']', '/']\<close>\<close>

definition chars_to_replace :: "nat list" where
  "chars_to_replace =
     map of_char [CHR '' '', CHR ''%'', CHR ''-'', CHR ''('', CHR '')'',
                  CHR ''['', CHR '']'', CHR ''/'']"

text \<open>
  \<open>unidecode.unidecode\<close> belongs to the Unidecode package, not to this repository. It
  works character by character: a code point below 128 is kept, any other is replaced by
  the entry of the package's transliteration table (the empty string where the table has
  none). The table is a parameter \<open>tbl\<close> of the model.
\<close>

definition unidecode :: "(nat \<Rightarrow> pystr) \<Rightarrow> pystr \<Rightarrow> pystr" where
  "unidecode tbl s = concat (map (\<lambda>c. if c < 128 then [c] else tbl c) s)"

text \<open>The loop \<open>for char in chars_to_replace: column = column.replace(char, '_')\<close>.\<close>

fun replace_chars :: "nat list \<Rightarrow> pystr \<Rightarrow> pystr" where
  "replace_chars [] column = column"
| "replace_chars (char # chars) column =
     replace_chars chars (replace [char] (py ''_'') column)"

definition clean_column_str :: "(nat \<Rightarrow> pystr) \<Rightarrow> pystr \<Rightarrow> pystr" where
  "clean_column_str tbl column =
     unidecode tbl
       (replace_chars chars_to_replace
          (replace (py ''[-]'') (py ''minus'')
             (replace (py ''[+]'') (py ''plus'') column)))"

text \<open>
  The same loop on a pandas Index: \<open>columns.str.replace(char, '_', regex=False)\<close>
  replaces in every label.
\<close>

fun replace_chars_index :: "nat list \<Rightarrow> pystr list \<Rightarrow> pystr list" where
  "replace_chars_index [] columns = columns"
| "replace_chars_index (char # chars) columns =
     replace_chars_index chars (map (replace [char] (py ''_'')) columns)"

definition clean_column_names :: "(nat \<Rightarrow> pystr) \<Rightarrow> pystr list \<Rightarrow> pystr list" where
  "clean_column_names tbl columns =
     map (unidecode tbl)
       (replace_chars_index chars_to_replace
          (map (replace (py ''[-]'') (py ''minus''))
             (map (replace (py ''[+]'') (py ''plus'')) columns)))"

text \<open>
  Two entries of the Unidecode table, for the Latin-1 block: the no-break space U+00A0
  is transliterated to a space and the copyright sign U+00A9 to \<open>(c)\<close>. Every other
  code point is given the empty string here.
\<close>

definition latin1_sample :: "nat \<Rightarrow> pystr" where
  "latin1_sample c = (if c = 160 then py '' '' else if c = 169 then py ''(c)'' else [])"


section \<open>Category configuration (google_shared_drive_configs.py)\<close>

datatype py_type = PyInt | PyStr | PyFloat | PyBool

record config =
  date_cols :: "pystr list option"
  dtypes :: "(pystr \<times> py_type) list"
  skip_rows :: "nat option"
  encoding :: "pystr option"

text \<open>
  The values of the \<open>configs\<close> dictionary: the list under \<open>'all_folders'\<close>, and one
  entry per folder. A dictionary keeps its keys in insertion order, so \<open>dtypes\<close> is an
  association list.
\<close>

datatype config_value = Folders "pystr list" | Entry config

definition all_folders :: "pystr list" where
  "all_folders = [py ''folder_1'', py ''folder_2'', py ''folder_3'']"

definition folder12_config :: config where
  "folder12_config =
     \<lparr> date_cols = Some [py ''col_date''],
       dtypes = [(py ''column_1'', PyInt), (py ''column_2'', PyStr),
                 (py ''column_3'', PyStr), (py ''column_4'', PyFloat),
                 (py ''column_5'', PyFloat), (py ''column_6'', PyStr),
                 (py ''column_7'', PyFloat)],
       skip_rows = Some 2,
       encoding = Some (py ''CP1250'') \<rparr>"

definition folder3_config :: config where
  "folder3_config =
     \<lparr> date_cols = Some [py ''date_col''],
       dtypes = [(py ''column_1'', PyStr), (py ''column_2'', PyInt),
                 (py ''column_3'', PyStr), (py ''column_4'', PyStr),
                 (py ''column_5'', PyFloat), (py ''column_6'', PyStr),
                 (py ''column_7'', PyFloat)],
       skip_rows = None,
       encoding = None \<rparr>"

definition configs :: "pystr \<Rightarrow> config_value option" where
  "configs key =
     (if key = py ''all_folders'' then Some (Folders all_folders)
      else if key = py ''folder_1'' \<or> key = py ''folder_2'' then Some (Entry folder12_config)
      else if key = py ''folder_3'' then Some (Entry folder3_config)
      else None)"


section \<open>Schema derivation\<close>

fun bq_types_mapping :: "py_type \<Rightarrow> pystr" where
  "bq_types_mapping PyInt = py ''INT64''"
| "bq_types_mapping PyStr = py ''STRING''"
| "bq_types_mapping PyFloat = py ''FLOAT64''"
| "bq_types_mapping PyBool = py ''BOOLEAN''"

definition folder3_columns_to_float :: "pystr list" where
  "folder3_columns_to_float = [py ''column_4'', py ''column_5'']"

record field =
  f_name :: pystr
  f_type :: pystr
  f_description :: pystr

text \<open>The loop over \<open>dtypes.items()\<close>, appending one field per declared column.\<close>

fun dtypes_loop ::
  "(nat \<Rightarrow> pystr) \<Rightarrow> pystr \<Rightarrow> (pystr \<times> py_type) list \<Rightarrow> field list \<Rightarrow> field list" where
  "dtypes_loop tbl folder_name [] schema = schema"
| "dtypes_loop tbl folder_name ((column, ty) # rest) schema =
     dtypes_loop tbl folder_name rest
       (schema @
        [\<lparr> f_name = clean_column_str tbl column,
           f_type = bq_types_mapping
             (if folder_name = py ''folder_3'' \<and> column \<in> set folder3_columns_to_float
              then PyFloat else ty),
           f_description = column \<rparr>])"

text \<open>The loop over \<open>date_cols\<close>.\<close>

fun date_cols_loop :: "(nat \<Rightarrow> pystr) \<Rightarrow> pystr list \<Rightarrow> field list \<Rightarrow> field list" where
  "date_cols_loop tbl [] schema = schema"
| "date_cols_loop tbl (date_col # rest) schema =
     date_cols_loop tbl rest
       (schema @
        [\<lparr> f_name = clean_column_str tbl date_col,
           f_type = py ''TIMESTAMP'',
           f_description = date_col \<rparr>])"

text \<open>
  \<open>create_schema\<close>, with the \<open>configs\<close> dictionary as the argument \<open>cfgs\<close>. A key that
  is absent raises KeyError; the list under \<open>'all_folders'\<close> cannot be indexed by
  \<open>'dtypes'\<close> and raises TypeError.
\<close>

definition create_schema ::
  "(nat \<Rightarrow> pystr) \<Rightarrow> (pystr \<Rightarrow> config_value option) \<Rightarrow> pystr \<Rightarrow> exn + field list" where
  "create_schema tbl cfgs folder_name =
     (case cfgs folder_name of
        None \<Rightarrow> Inl KeyError
      | Some (Folders fs) \<Rightarrow> Inl TypeError
      | Some (Entry cfg) \<Rightarrow>
          (let schema = dtypes_loop tbl folder_name (dtypes cfg) []
           in case date_cols cfg of
                None \<Rightarrow> Inr schema
              | Some dcs \<Rightarrow>
                  (if dcs \<noteq> [] then Inr (date_cols_loop tbl dcs schema)
                   else Inr schema)))"

text \<open>The field lists that the specification describes for an entry.\<close>

definition declared_fields :: "(nat \<Rightarrow> pystr) \<Rightarrow> pystr \<Rightarrow> config \<Rightarrow> field list" where
  "declared_fields tbl folder_name cfg =
     map (\<lambda>(column, ty).
            \<lparr> f_name = clean_column_str tbl column,
              f_type = bq_types_mapping
                (if folder_name = py ''folder_3'' \<and> column \<in> set folder3_columns_to_float
                 then PyFloat else ty),
              f_description = column \<rparr>)
         (dtypes cfg)"

definition date_columns :: "config \<Rightarrow> pystr list" where
  "date_columns cfg = (case date_cols cfg of None \<Rightarrow> [] | Some dcs \<Rightarrow> dcs)"

definition timestamp_fields :: "(nat \<Rightarrow> pystr) \<Rightarrow> config \<Rightarrow> field list" where
  "timestamp_fields tbl cfg =
     map (\<lambda>date_col.
            \<lparr> f_name = clean_column_str tbl date_col,
              f_type = py ''TIMESTAMP'',
              f_description = date_col \<rparr>)
         (date_columns cfg)"


section \<open>The Drive connector: state and environment\<close>

record df =
  df_columns :: "pystr list"
  df_nrows :: nat

text \<open>\<open>df.empty\<close>: one of the two axes has length 0.\<close>

definition df_empty :: "df \<Rightarrow> bool" where
  "df_empty d = (df_nrows d = 0 \<or> df_columns d = [])"

text \<open>
  What a run does to the outside world, in order: \<open>time.sleep\<close>, the dedup query
  (table, file name), the download of a file (file id), a load job (table id, file name,
  schema, data frame, and the exception it raised, if any) and a mail (subject, body).
\<close>

datatype event =
    Sleep nat
  | Query pystr pystr
  | Download pystr
  | Load pystr pystr "field list" df "exn option"
  | Mail pystr pystr

record drive =
  drive_id :: pystr
  drive_name :: pystr

record folder =
  fd_id :: pystr
  fd_name :: pystr

record item =
  item_id :: pystr
  item_name :: pystr
  item_parents :: "pystr list"
  item_trashed :: bool

text \<open>
  The remote services, as functions that the model consults. Those called while files
  are processed receive the events so far, so that an answer may depend on what the run
  has already done (a query sees the rows of an earlier load).
  \<^item> \<open>drives_list\<close>: \<open>service.drives().list(pageSize=10).execute()\<close>;
  \<^item> \<open>list_folders\<close>, \<open>list_items\<close>: \<open>get_files_from_drive\<close> with the folder query
    and with the file query, for a drive id (\<open>None\<close> when no drive was found);
  \<^item> \<open>bq_query\<close>: \<open>bq_client.query\<close> raises, or gives a job whose \<open>result()\<close> raises
    or has \<open>total_rows\<close>;
  \<^item> \<open>read_csv\<close>: the download of a file id and \<open>pd.read_csv\<close> with the parameters of
    the folder's entry;
  \<^item> \<open>comma_to_float\<close>: the pandas calls \<open>replace\<close> and \<open>astype(float)\<close> on a column;
  \<^item> \<open>load_job\<close>: \<open>load_table_from_dataframe\<close> and \<open>job.result()\<close>;
  \<^item> \<open>translit\<close>: the table of the Unidecode package.
  Sending a mail is recorded as an event; the mail transport is outside the model.
\<close>

record env =
  translit :: "nat \<Rightarrow> pystr"
  drives_list :: "exn + drive list"
  list_folders :: "pystr option \<Rightarrow> exn + folder list"
  list_items :: "pystr option \<Rightarrow> exn + item list"
  bq_query :: "event list \<Rightarrow> pystr \<Rightarrow> pystr \<Rightarrow> exn + (exn + nat)"
  read_csv :: "event list \<Rightarrow> pystr \<Rightarrow> config \<Rightarrow> exn + df"
  comma_to_float :: "df \<Rightarrow> pystr \<Rightarrow> exn + df"
  load_job :: "event list \<Rightarrow> pystr \<Rightarrow> field list \<Rightarrow> df \<Rightarrow> exn option"

text \<open>
  The store. \<open>files_added = []\<close> and \<open>counter = 1\<close> carry no annotation in the
  dataclass, so they are attributes of the class \<open>DriveConnector\<close>, one for the process.
  \<open>shared_drive_name\<close>, \<open>dataset\<close> and \<open>project\<close> are attributes of the instance, and
  \<open>inst_counter\<close> is the entry \<open>counter\<close> of the instance's own dictionary, absent
  until the instance assigns it.
\<close>

record world =
  cls_files_added :: "pystr list"
  cls_counter :: int
  shared_drive_name :: pystr
  dataset :: pystr
  project :: pystr
  inst_counter :: "int option"
  events :: "event list"

text \<open>The process after the module is imported: the class exists, no instance does.\<close>

definition module_loaded :: world where
  "module_loaded =
     \<lparr> cls_files_added = [], cls_counter = 1, shared_drive_name = [], dataset = [],
       project = [], inst_counter = None, events = [] \<rparr>"

text \<open>\<open>DriveConnector(shared_drive_name=.., dataset=.., ..)\<close>: a new instance, whose
  dictionary has no \<open>counter\<close> and no \<open>files_added\<close>. The project comes with the
  credentials.\<close>

definition DriveConnector :: "pystr \<Rightarrow> pystr \<Rightarrow> pystr \<Rightarrow> world \<Rightarrow> world" where
  "DriveConnector name ds proj w =
     w\<lparr> shared_drive_name := name, dataset := ds, project := proj, inst_counter := None \<rparr>"

text \<open>Reading \<open>self.counter\<close>: the instance's entry if there is one, else the class's.\<close>

definition self_counter :: "world \<Rightarrow> int" where
  "self_counter w = (case inst_counter w of Some c \<Rightarrow> c | None \<Rightarrow> cls_counter w)"

text \<open>Reading \<open>self.files_added\<close>: no method assigns it on the instance, so it is
  always the list of the class.\<close>

definition self_files_added :: "world \<Rightarrow> pystr list" where
  "self_files_added w = cls_files_added w"

definition emit :: "event \<Rightarrow> world \<Rightarrow> world" where
  "emit e w = w\<lparr> events := events w @ [e] \<rparr>"


section \<open>The Drive connector: methods\<close>

fun find_drive :: "pystr \<Rightarrow> drive list \<Rightarrow> pystr option" where
  "find_drive name [] = None"
| "find_drive name (d # ds) =
     (if drive_name d = name then Some (drive_id d) else find_drive name ds)"

text \<open>
  \<open>get_shared_drive_id\<close>: both \<open>RuntimeError(..)\<close> expressions build an exception and
  drop it, so a drive that is not found gives \<open>None\<close>.
\<close>

definition get_shared_drive_id :: "env \<Rightarrow> world \<Rightarrow> pystr option outcome" where
  "get_shared_drive_id en w =
     (case drives_list en of
        Inl e \<Rightarrow> Raise e
      | Inr items \<Rightarrow>
          (if items = [] then Return None
           else Return (find_drive (shared_drive_name w) items)))"

text \<open>\<open>{d['id']: d['name'] for d in folders_ids}\<close>: a later folder with the same id
  wins.\<close>

fun folders_dict_of :: "folder list \<Rightarrow> (pystr \<Rightarrow> pystr option)" where
  "folders_dict_of [] = Map.empty"
| "folders_dict_of (d # ds) = (\<lambda>k. case folders_dict_of ds k of
                                      Some n \<Rightarrow> Some n
                                    | None \<Rightarrow> if k = fd_id d then Some (fd_name d) else None)"

definition error_subject :: pystr where
  "error_subject = py ''Drive to BQ Upload: Error while loading file''"

definition error_text :: "pystr \<Rightarrow> pystr \<Rightarrow> pystr \<Rightarrow> pystr" where
  "error_text file_name folder_name msg =
     py ''Error while loading '' @ file_name @ py '' from '' @ folder_name @ [10] @
     py ''Error: '' @ msg"

definition send_error_mail :: "world \<Rightarrow> pystr \<Rightarrow> pystr \<Rightarrow> pystr \<Rightarrow> world" where
  "send_error_mail w file_name folder_name msg =
     emit (Mail error_subject (error_text file_name folder_name msg)) w"

definition completed_subject :: pystr where
  "completed_subject = py ''Drive to BQ Upload: Transfer completed''"

definition no_file_subject :: pystr where
  "no_file_subject = py ''Drive to BQ Upload: No file uploaded''"

definition confirmation :: "pystr list \<Rightarrow> event" where
  "confirmation files =
     (if files \<noteq> []
      then Mail completed_subject (py ''Files added: '' @ [10] @ join [10] files)
      else Mail no_file_subject (py ''No file from Drive was added to BQ''))"

definition send_confirmation_mail :: "world \<Rightarrow> world" where
  "send_confirmation_mail w = emit (confirmation (self_files_added w)) w"

text \<open>
  \<open>if_table_not_in_bq\<close>. \<open>bq_client.query\<close> is called before the \<open>try\<close>; only
  \<open>NotFound\<close> raised by \<open>result()\<close> is caught.
\<close>

definition table_path :: "world \<Rightarrow> pystr \<Rightarrow> pystr" where
  "table_path w folder_name = project w @ py ''.'' @ dataset w @ py ''.'' @ folder_name"

definition if_table_not_in_bq :: "env \<Rightarrow> world \<Rightarrow> pystr \<Rightarrow> pystr \<Rightarrow> bool outcome \<times> world" where
  "if_table_not_in_bq en w folder_name file_name =
     (let table = table_path w folder_name;
          w1 = emit (Query table file_name) w
      in case bq_query en (events w) table file_name of
           Inl e \<Rightarrow> (Raise e, w1)
         | Inr query_job \<Rightarrow>
             (case query_job of
                Inl e \<Rightarrow> (if e = NotFound then (Return True, w1) else (Raise e, w1))
              | Inr total_rows \<Rightarrow>
                  (if total_rows \<noteq> 0 then (Return False, w1) else (Return True, w1))))"

text \<open>
  \<open>get_df_from_file_id\<close>: \<open>configs[folder_name]\<close> raises KeyError for an absent key,
  and \<open>.get\<close> on the list under \<open>'all_folders'\<close> raises AttributeError.
\<close>

definition get_df_from_file_id ::
  "env \<Rightarrow> world \<Rightarrow> pystr \<Rightarrow> pystr \<Rightarrow> pystr \<Rightarrow> df outcome \<times> world" where
  "get_df_from_file_id en w file_id file_name folder_name =
     (case configs folder_name of
        None \<Rightarrow> (Raise KeyError, w)
      | Some (Folders fs) \<Rightarrow> (Raise AttributeError, w)
      | Some (Entry cfg) \<Rightarrow>
          (case read_csv en (events w) file_id cfg of
             Inl e \<Rightarrow> (Raise e, emit (Download file_id) w)
           | Inr d \<Rightarrow> (Return d, emit (Download file_id) w)))"

text \<open>The loop of \<open>prepare_df_folder3\<close> over \<open>folder3_columns_to_float\<close>.\<close>

fun prepare_df_folder3_loop :: "env \<Rightarrow> pystr list \<Rightarrow> df \<Rightarrow> exn + df" where
  "prepare_df_folder3_loop en [] d = Inr d"
| "prepare_df_folder3_loop en (column # columns) d =
     (case comma_to_float en d column of
        Inl e \<Rightarrow> Inl e
      | Inr d' \<Rightarrow> prepare_df_folder3_loop en columns d')"

definition rename_column :: "pystr \<Rightarrow> pystr \<Rightarrow> df \<Rightarrow> df" where
  "rename_column old new d =
     d\<lparr> df_columns := map (\<lambda>c. if c = old then new else c) (df_columns d) \<rparr>"

definition prepare_df_folder12 :: "df \<Rightarrow> df" where
  "prepare_df_folder12 d =
     (let d1 = (if py ''[-] '' \<in> set (df_columns d)
                then rename_column (py ''[-] '') (py ''[-]'') d else d)
      in if py ''[+] '' \<in> set (df_columns d1)
         then rename_column (py ''[+] '') (py ''[+]'') d1 else d1)"

text \<open>
  \<open>prepare_df\<close>. \<open>df['file'] = file_name\<close> adds the column when it is new;
  \<open>df.insert(0, 'ts_ms', ..)\<close> raises ValueError when the column exists already.
\<close>

definition prepare_df :: "env \<Rightarrow> df \<Rightarrow> pystr \<Rightarrow> pystr \<Rightarrow> exn + df" where
  "prepare_df en d file_name folder_name =
     (case (if folder_name = py ''folder_3''
            then prepare_df_folder3_loop en folder3_columns_to_float d else Inr d) of
        Inl e \<Rightarrow> Inl e
      | Inr d1 \<Rightarrow>
          (let d2 = (if folder_name = py ''folder_1'' \<or> folder_name = py ''folder_2''
                     then prepare_df_folder12 d1 else d1);
               d3 = (if py ''file'' \<in> set (df_columns d2) then d2
                     else d2\<lparr> df_columns := df_columns d2 @ [py ''file''] \<rparr>)
           in if py ''ts_ms'' \<in> set (df_columns d3)
              then Inl (ValueError (py ''cannot insert ts_ms, already exists''))
              else Inr (d3\<lparr> df_columns :=
                          clean_column_names (translit en) (py ''ts_ms'' # df_columns d3) \<rparr>)))"

text \<open>
  \<open>upload_df_to_bq\<close>: the sleep, the load job, \<open>except ValueError\<close> with its mail, and
  \<open>self.counter += 1\<close>, which reads \<open>self.counter\<close> and assigns the entry of the
  instance.
\<close>

definition upload_df_to_bq ::
  "env \<Rightarrow> world \<Rightarrow> df \<Rightarrow> pystr \<Rightarrow> pystr \<Rightarrow> unit outcome \<times> world" where
  "upload_df_to_bq en w d folder_name file_name =
     (let w1 = (if self_counter w mod 5 = 0 then emit (Sleep 10) w else w);
          table_id = dataset w @ py ''.'' @ folder_name
      in case create_schema (translit en) configs folder_name of
           Inl e \<Rightarrow> (Raise e, w1)
         | Inr schema \<Rightarrow>
             (let r = load_job en (events w1) table_id schema d;
                  w2 = emit (Load table_id file_name schema d r) w1
              in case r of
                   None \<Rightarrow> (Return (), w2\<lparr> inst_counter := Some (self_counter w2 + 1) \<rparr>)
                 | Some e \<Rightarrow>
                     (case e of
                        ValueError msg \<Rightarrow>
                          (let w3 = send_error_mail w2 file_name folder_name msg
                           in (Return (), w3\<lparr> inst_counter := Some (self_counter w3 + 1) \<rparr>))
                      | _ \<Rightarrow> (Raise e, w2))))"

text \<open>
  \<open>upload_csv_to_bq\<close>: the \<open>try\<close> covers the download and the emptiness test;
  \<open>prepare_df\<close> and \<open>upload_df_to_bq\<close> are outside it, and the append to
  \<open>files_added\<close> follows whenever \<open>upload_df_to_bq\<close> returns.
\<close>

definition upload_csv_to_bq ::
  "env \<Rightarrow> world \<Rightarrow> pystr \<Rightarrow> pystr \<Rightarrow> pystr \<Rightarrow> unit outcome \<times> world" where
  "upload_csv_to_bq en w folder_name file_name file_id =
     (case get_df_from_file_id en w file_id file_name folder_name of
        (Raise e, w1) \<Rightarrow>
          (case e of
             ValueError msg \<Rightarrow> (Return (), send_error_mail w1 file_name folder_name msg)
           | _ \<Rightarrow> (Raise e, w1))
      | (Return d, w1) \<Rightarrow>
          (if df_empty d
           then (Return (), send_error_mail w1 file_name folder_name (py ''CSV is empty!''))
           else (case prepare_df en d file_name folder_name of
                   Inl e \<Rightarrow> (Raise e, w1)
                 | Inr d' \<Rightarrow>
                     (case upload_df_to_bq en w1 d' folder_name file_name of
                        (Raise e, w2) \<Rightarrow> (Raise e, w2)
                      | (Return u, w2) \<Rightarrow>
                          (Return (),
                           w2\<lparr> cls_files_added := self_files_added w2 @ [file_name] \<rparr>)))))"

text \<open>
  The body of the loop of \<open>iterate_through_items\<close> for one item; \<open>Return ()\<close> is the
  end of the iteration (also by \<open>continue\<close>). \<open>item['parents'][0]\<close> raises IndexError
  on an empty list, and an empty folder name is falsy.
\<close>

definition process_item ::
  "env \<Rightarrow> (pystr \<Rightarrow> pystr option) \<Rightarrow> item \<Rightarrow> world \<Rightarrow> unit outcome \<times> world" where
  "process_item en folders_dict it w =
     (if item_trashed it then (Return (), w)
      else (case item_parents it of
              [] \<Rightarrow> (Raise IndexError, w)
            | parent # ps \<Rightarrow>
                (case folders_dict parent of
                   None \<Rightarrow> (Return (), w)
                 | Some name \<Rightarrow>
                     (if name = [] then (Return (), w)
                      else if name \<in> set all_folders
                      then (let folder_name = replace (py '' '') (py ''_'') name
                            in case if_table_not_in_bq en w folder_name (item_name it) of
                                 (Raise e, w1) \<Rightarrow> (Raise e, w1)
                               | (Return proceed, w1) \<Rightarrow>
                                   (if proceed
                                    then upload_csv_to_bq en w1 folder_name (item_name it)
                                           (item_id it)
                                    else (Return (), w1)))
                      else (Return (), w)))))"

text \<open>The folder and file name with which the loop body calls the dedup gate for an
  item, if it does: the item is not trashed, its first parent is a folder with a name,
  and the name is in \<open>all_folders\<close>.\<close>

definition gate_target :: "(pystr \<Rightarrow> pystr option) \<Rightarrow> item \<Rightarrow> (pystr \<times> pystr) option" where
  "gate_target folders_dict it =
     (if item_trashed it then None
      else (case item_parents it of
              [] \<Rightarrow> None
            | parent # ps \<Rightarrow>
                (case folders_dict parent of
                   None \<Rightarrow> None
                 | Some name \<Rightarrow>
                     (if name \<noteq> [] \<and> name \<in> set all_folders
                      then Some (replace (py '' '') (py ''_'') name, item_name it)
                      else None))))"

fun items_loop ::
  "env \<Rightarrow> (pystr \<Rightarrow> pystr option) \<Rightarrow> item list \<Rightarrow> world \<Rightarrow> unit outcome \<times> world" where
  "items_loop en folders_dict [] w = (Return (), w)"
| "items_loop en folders_dict (it # items) w =
     (case process_item en folders_dict it w of
        (Raise e, w1) \<Rightarrow> (Raise e, w1)
      | (Return u, w1) \<Rightarrow> items_loop en folders_dict items w1)"

definition iterate_through_items ::
  "env \<Rightarrow> world \<Rightarrow> item list \<Rightarrow> (pystr \<Rightarrow> pystr option) \<Rightarrow> unit outcome \<times> world" where
  "iterate_through_items en w items folders_dict =
     (case items_loop en folders_dict items w of
        (Raise e, w1) \<Rightarrow> (Raise e, w1)
      | (Return u, w1) \<Rightarrow> (Return (), send_confirmation_mail w1))"

text \<open>\<open>run_transfer\<close>: with no item the \<open>RuntimeError\<close> is built and dropped, and the
  method returns.\<close>

definition run_transfer :: "env \<Rightarrow> world \<Rightarrow> unit outcome \<times> world" where
  "run_transfer en w =
     (case get_shared_drive_id en w of
        Raise e \<Rightarrow> (Raise e, w)
      | Return shared_drive_id \<Rightarrow>
          (case list_folders en shared_drive_id of
             Inl e \<Rightarrow> (Raise e, w)
           | Inr folders_ids \<Rightarrow>
               (case list_items en shared_drive_id of
                  Inl e \<Rightarrow> (Raise e, w)
                | Inr items \<Rightarrow>
                    (if items = [] then (Return (), w)
                     else iterate_through_items en w items (folders_dict_of folders_ids)))))"


section \<open>Reading a trace of the Drive connector\<close>

text \<open>The end-of-run mail is told from the per-file mails by its subject.\<close>

fun is_summary :: "event \<Rightarrow> bool" where
  "is_summary (Mail subject body) = (subject = completed_subject \<or> subject = no_file_subject)"
| "is_summary e = False"

text \<open>The file names of the load jobs that completed.\<close>

fun loaded_names :: "event list \<Rightarrow> pystr list" where
  "loaded_names [] = []"
| "loaded_names (Load table_id file_name schema d None # es) = file_name # loaded_names es"
| "loaded_names (e # es) = loaded_names es"

text \<open>The file names of the load jobs after which \<open>upload_df_to_bq\<close> returned: those
  that completed and those that raised ValueError.\<close>

fun recorded_names :: "event list \<Rightarrow> pystr list" where
  "recorded_names [] = []"
| "recorded_names (Load table_id file_name schema d None # es) =
     file_name # recorded_names es"
| "recorded_names (Load table_id file_name schema d (Some (ValueError msg)) # es) =
     file_name # recorded_names es"
| "recorded_names (e # es) = recorded_names es"

text \<open>The number of load attempts.\<close>

fun attempts :: "event list \<Rightarrow> nat" where
  "attempts [] = 0"
| "attempts (Load table_id file_name schema d r # es) = Suc (attempts es)"
| "attempts (e # es) = attempts es"

text \<open>
  The throttle policy read off a trace. \<open>c\<close> is the number of the next load attempt and
  \<open>slept\<close> tells whether the event just before was a sleep. A sleep lasts 10 units and
  is followed at once by a load attempt; the load attempt number \<open>c\<close> comes right after
  a sleep exactly when 5 divides \<open>c\<close>.
\<close>

fun throttle_ok :: "int \<Rightarrow> bool \<Rightarrow> event list \<Rightarrow> bool" where
  "throttle_ok c slept [] = (\<not> slept)"
| "throttle_ok c slept (Sleep t # es) = (\<not> slept \<and> t = 10 \<and> throttle_ok c True es)"
| "throttle_ok c slept (Load table_id file_name schema d r # es) =
     ((slept = (c mod 5 = 0)) \<and> throttle_ok (c + 1) False es)"
| "throttle_ok c slept (e # es) = (\<not> slept \<and> throttle_ok c False es)"


text \<open>The sleeps and the load attempts of a trace, in order: \<open>True\<close> for a sleep,
  \<open>False\<close> for a load attempt.\<close>

fun sleeps_and_loads :: "event list \<Rightarrow> bool list" where
  "sleeps_and_loads [] = []"
| "sleeps_and_loads (Sleep t # es) = True # sleeps_and_loads es"
| "sleeps_and_loads (Load table_id file_name schema d r # es) = False # sleeps_and_loads es"
| "sleeps_and_loads (e # es) = sleeps_and_loads es"

text \<open>No load job raises ValueError.\<close>

definition no_value_error :: "env \<Rightarrow> bool" where
  "no_value_error en = (\<forall>h t s d msg. load_job en h t s d \<noteq> Some (ValueError msg))"

text \<open>The items over which \<open>run_transfer\<close> iterates: those of the file listing, none
  when a listing call raises.\<close>

definition discovered_items :: "env \<Rightarrow> world \<Rightarrow> item list" where
  "discovered_items en w =
     (case get_shared_drive_id en w of
        Raise e \<Rightarrow> []
      | Return shared_drive_id \<Rightarrow>
          (case list_folders en shared_drive_id of
             Inl e \<Rightarrow> []
           | Inr folders_ids \<Rightarrow>
               (case list_items en shared_drive_id of
                  Inl e \<Rightarrow> []
                | Inr items \<Rightarrow> items)))"

text \<open>
  What a part of a run may do to the state \<open>w\<close>, given the events \<open>new\<close> that it adds:
  the list of the class grows by the recorded names, the counter of the class and the
  fields of the instance stay, no end-of-run mail is sent, the throttle policy holds
  from the current counter on, and after a return the counter has advanced by the number
  of load attempts.
\<close>

definition effect :: "env \<Rightarrow> world \<Rightarrow> unit outcome \<times> world \<Rightarrow> event list \<Rightarrow> bool" where
  "effect en w rw new =
     (events (snd rw) = events w @ new
      \<and> cls_files_added (snd rw) = cls_files_added w @ recorded_names new
      \<and> cls_counter (snd rw) = cls_counter w
      \<and> shared_drive_name (snd rw) = shared_drive_name w
      \<and> dataset (snd rw) = dataset w
      \<and> project (snd rw) = project w
      \<and> (\<forall>e\<in>set new. \<not> is_summary e)
      \<and> throttle_ok (self_counter w) False new
      \<and> (no_value_error en \<longrightarrow> recorded_names new = loaded_names new)
      \<and> (fst rw = Return () \<longrightarrow> self_counter (snd rw) = self_counter w + int (attempts new)))"


section \<open>The Storage connector (google_storage_connector.py)\<close>

record blob =
  blob_name :: pystr

record storage_connector =
  bucket_name :: pystr
  project_name :: pystr
  sc_dataset :: pystr
  tables_to_skip :: "pystr list"

text \<open>What the connector does and prints, in order: the load of a URI into a table,
  and the messages of \<open>print\<close>.\<close>

datatype slog =
    LoadUri pystr pystr
  | RowsCounted int
  | LoadedRows nat
  | DifferentRows nat int
  | TableSkipped pystr
  | SkippedError pystr exn

text \<open>
  The remote services: \<open>bucket.list_blobs(prefix=year)\<close>; the load job of a URI followed
  by \<open>get_table(..).num_rows\<close>, which may depend on what was loaded before; and the
  decompressed bytes of an object read through gcsfs and gzip.
\<close>

record storage_env =
  list_blobs :: "pystr \<Rightarrow> exn + blob list"
  load_table_from_uri :: "slog list \<Rightarrow> pystr \<Rightarrow> pystr \<Rightarrow> exn + nat"
  gzip_read :: "pystr \<Rightarrow> exn + nat list"

definition get_uri_from_blob :: "storage_connector \<Rightarrow> blob \<Rightarrow> pystr" where
  "get_uri_from_blob sc b = py ''gs://'' @ bucket_name sc @ py ''/'' @ blob_name b"

text \<open>\<open>blob.name.split("/")[1].split(".")[0]\<close>: index 1 raises IndexError when the
  name has no slash.\<close>

definition get_table_name_from_blob :: "blob \<Rightarrow> exn + pystr" where
  "get_table_name_from_blob b =
     (case split_on (of_char CHR ''/'') (blob_name b) of
        first # second # others \<Rightarrow>
          (case split_on (of_char CHR ''.'') second of
             [] \<Rightarrow> Inl IndexError
           | table_name # exts \<Rightarrow> Inr table_name)
      | _ \<Rightarrow> Inl IndexError)"

definition upload_data_to_bq ::
  "storage_env \<Rightarrow> storage_connector \<Rightarrow> slog list \<Rightarrow> pystr \<Rightarrow> pystr \<Rightarrow> nat outcome \<times> slog list" where
  "upload_data_to_bq sen sc tr blob_uri table_name =
     (let table_id = project_name sc @ py ''.'' @ sc_dataset sc @ py ''.'' @ table_name
      in case load_table_from_uri sen tr blob_uri table_id of
           Inl e \<Rightarrow> (Raise e, tr @ [LoadUri blob_uri table_id])
         | Inr num_rows \<Rightarrow> (Return num_rows, tr @ [LoadUri blob_uri table_id]))"

fun check_if_table_to_skip_loop :: "pystr list \<Rightarrow> pystr \<Rightarrow> bool" where
  "check_if_table_to_skip_loop [] table_name = False"
| "check_if_table_to_skip_loop (t_to_skip # rest) table_name =
     (if contains t_to_skip table_name then True
      else check_if_table_to_skip_loop rest table_name)"

definition check_if_table_to_skip :: "storage_connector \<Rightarrow> pystr \<Rightarrow> bool" where
  "check_if_table_to_skip sc table_name =
     check_if_table_to_skip_loop (tables_to_skip sc) table_name"

text \<open>Iterating over a binary file gives its lines: each ends with the byte 10, but
  for a last line without one.\<close>

fun readlines_from :: "nat list \<Rightarrow> nat list \<Rightarrow> nat list list" where
  "readlines_from cur [] = (if cur = [] then [] else [cur])"
| "readlines_from cur (b # bs) =
     (if b = 10 then (cur @ [b]) # readlines_from [] bs
      else readlines_from (cur @ [b]) bs)"

definition readlines :: "nat list \<Rightarrow> nat list list" where
  "readlines content = readlines_from [] content"

text \<open>\<open>for lines, l in enumerate(g): pass\<close>: \<open>lines\<close> is unbound before the loop and
  holds the index of the last line after it.\<close>

fun enumerate_loop :: "int \<Rightarrow> 'a list \<Rightarrow> int option \<Rightarrow> int option" where
  "enumerate_loop i [] lines = lines"
| "enumerate_loop i (l # ls) lines = enumerate_loop (i + 1) ls (Some i)"

definition count_lines ::
  "storage_env \<Rightarrow> storage_connector \<Rightarrow> slog list \<Rightarrow> blob \<Rightarrow> int outcome \<times> slog list" where
  "count_lines sen sc tr b =
     (let gcs_file = bucket_name sc @ py ''/'' @ blob_name b
      in case gzip_read sen gcs_file of
           Inl e \<Rightarrow> (Raise e, tr)
         | Inr content \<Rightarrow>
             (case enumerate_loop 0 (readlines content) None of
                None \<Rightarrow> (Raise UnboundLocalError, tr)
              | Some lines \<Rightarrow> (Return lines, tr @ [RowsCounted lines])))"

definition check_if_all_rows_uploaded ::
  "storage_env \<Rightarrow> storage_connector \<Rightarrow> slog list \<Rightarrow> blob \<Rightarrow> pystr \<Rightarrow> pystr
     \<Rightarrow> unit outcome \<times> slog list" where
  "check_if_all_rows_uploaded sen sc tr b blob_uri table_name =
     (case upload_data_to_bq sen sc tr blob_uri table_name of
        (Raise e, tr1) \<Rightarrow> (Raise e, tr1)
      | (Return rows_loaded, tr1) \<Rightarrow>
          (case count_lines sen sc tr1 b of
             (Raise e, tr2) \<Rightarrow> (Raise e, tr2)
           | (Return lines, tr2) \<Rightarrow>
               (if int rows_loaded = lines
                then (Return (), tr2 @ [LoadedRows rows_loaded])
                else (Return (), tr2 @ [DifferentRows rows_loaded lines]))))"

text \<open>The body of the inner loop of \<open>load_data_from_storage\<close>; only \<open>BadRequest\<close> is
  caught.\<close>

definition process_blob ::
  "storage_env \<Rightarrow> storage_connector \<Rightarrow> blob \<Rightarrow> slog list \<Rightarrow> unit outcome \<times> slog list" where
  "process_blob sen sc b tr =
     (let blob_uri = get_uri_from_blob sc b
      in case get_table_name_from_blob b of
           Inl e \<Rightarrow> (Raise e, tr)
         | Inr table_name \<Rightarrow>
             (if check_if_table_to_skip sc table_name
              then (Return (), tr @ [TableSkipped table_name])
              else (case check_if_all_rows_uploaded sen sc tr b blob_uri table_name of
                      (Raise e, tr1) \<Rightarrow>
                        (case e of
                           BadRequest msg \<Rightarrow> (Return (), tr1 @ [SkippedError table_name e])
                         | _ \<Rightarrow> (Raise e, tr1))
                    | (Return u, tr1) \<Rightarrow> (Return (), tr1))))"

fun blobs_loop ::
  "storage_env \<Rightarrow> storage_connector \<Rightarrow> blob list \<Rightarrow> slog list \<Rightarrow> unit outcome \<times> slog list" where
  "blobs_loop sen sc [] tr = (Return (), tr)"
| "blobs_loop sen sc (b # bs) tr =
     (case process_blob sen sc b tr of
        (Raise e, tr1) \<Rightarrow> (Raise e, tr1)
      | (Return u, tr1) \<Rightarrow> blobs_loop sen sc bs tr1)"

fun load_data_from_storage ::
  "storage_env \<Rightarrow> storage_connector \<Rightarrow> pystr list \<Rightarrow> slog list \<Rightarrow> unit outcome \<times> slog list" where
  "load_data_from_storage sen sc [] tr = (Return (), tr)"
| "load_data_from_storage sen sc (year # years) tr =
     (case list_blobs sen year of
        Inl e \<Rightarrow> (Raise e, tr)
      | Inr blobs \<Rightarrow>
          (case blobs_loop sen sc blobs tr of
             (Raise e, tr1) \<Rightarrow> (Raise e, tr1)
           | (Return u, tr1) \<Rightarrow> load_data_from_storage sen sc years tr1))"


section \<open>Concrete runs\<close>

text \<open>
  A drive \<open>drive\<close> with one folder \<open>folder_1\<close> that holds two new CSV files; every
  remote call succeeds, and no table has a row of either file.
\<close>

definition file_a :: item where
  "file_a = \<lparr> item_id = py ''ia'', item_name = py ''a.csv'',
               item_parents = [py ''p1''], item_trashed = False \<rparr>"

definition file_b :: item where
  "file_b = \<lparr> item_id = py ''ib'', item_name = py ''b.csv'',
               item_parents = [py ''p1''], item_trashed = False \<rparr>"

definition small_df :: df where
  "small_df = \<lparr> df_columns = [py ''column_1''], df_nrows = 1 \<rparr>"

definition two_files_env :: env where
  "two_files_env =
     \<lparr> translit = latin1_sample,
       drives_list = Inr [\<lparr> drive_id = py ''d1'', drive_name = py ''drive'' \<rparr>],
       list_folders = (\<lambda>shared_drive_id. Inr [\<lparr> fd_id = py ''p1'', fd_name = py ''folder_1'' \<rparr>]),
       list_items = (\<lambda>shared_drive_id. Inr [file_a, file_b]),
       bq_query = (\<lambda>history table file_name. Inr (Inr 0)),
       read_csv = (\<lambda>history file_id cfg. Inr small_df),
       comma_to_float = (\<lambda>d column. Inr d),
       load_job = (\<lambda>history table_id schema d. None) \<rparr>"

definition first_connector :: world where
  "first_connector = DriveConnector (py ''drive'') (py ''ds'') (py ''proj'') module_loaded"

text \<open>The same drive with six files to load.\<close>

definition six_files_env :: env where
  "six_files_env =
     two_files_env\<lparr> list_items := (\<lambda>shared_drive_id.
        Inr [file_a, file_b, file_a, file_b, file_a, file_b]) \<rparr>"

text \<open>The same drive where the file listing answers with no file.\<close>

definition no_files_env :: env where
  "no_files_env = two_files_env\<lparr> list_items := (\<lambda>shared_drive_id. Inr []) \<rparr>"

text \<open>The same drive where the file listing fails.\<close>

definition listing_fails_env :: env where
  "listing_fails_env =
     two_files_env\<lparr> list_items := (\<lambda>shared_drive_id. Inl (OtherError (py ''HttpError''))) \<rparr>"

text \<open>The same drive where the listing of the drives fails, and where the listing of
  the folders fails.\<close>

definition drives_fail_env :: env where
  "drives_fail_env = two_files_env\<lparr> drives_list := Inl (OtherError (py ''HttpError'')) \<rparr>"

definition folders_fail_env :: env where
  "folders_fail_env =
     two_files_env\<lparr> list_folders := (\<lambda>shared_drive_id. Inl (OtherError (py ''HttpError''))) \<rparr>"

text \<open>The same drive where the dedup query is rejected for every file.\<close>

definition query_fails_env :: env where
  "query_fails_env =
     two_files_env\<lparr> bq_query := (\<lambda>history table file_name.
                                   Inr (Inl (BadRequest (py ''invalid query'')))) \<rparr>"

text \<open>The same drive where the download of every file fails in the transport.\<close>

definition download_fails_env :: env where
  "download_fails_env =
     two_files_env\<lparr> read_csv := (\<lambda>history file_id cfg. Inl (OtherError (py ''HttpError''))) \<rparr>"

text \<open>The same drive where every file parses to a table without rows.\<close>

definition empty_csv_env :: env where
  "empty_csv_env =
     two_files_env\<lparr> read_csv := (\<lambda>history file_id cfg.
                                   Inr \<lparr> df_columns = [py ''column_1''], df_nrows = 0 \<rparr>) \<rparr>"

text \<open>The four answers of the dedup query, for a table and a file name.\<close>

definition gate_env :: "exn + (exn + nat) \<Rightarrow> env" where
  "gate_env answer = two_files_env\<lparr> bq_query := (\<lambda>history table file_name. answer) \<rparr>"

text \<open>
  A bucket with one object \<open>2019/sales.csv.gz\<close> of three lines, a header and two
  records, whose load reports the given number of rows.
\<close>

definition sales_blob :: blob where
  "sales_blob = \<lparr> blob_name = py ''2019/sales.csv.gz'' \<rparr>"

definition sales_content :: "nat list" where
  "sales_content = py ''id;v'' @ [10] @ py ''1;a'' @ [10] @ py ''2;b'' @ [10]"

definition sales_env :: "nat \<Rightarrow> storage_env" where
  "sales_env num_rows =
     \<lparr> list_blobs = (\<lambda>year. Inr [sales_blob]),
       load_table_from_uri = (\<lambda>history blob_uri table_id. Inr num_rows),
       gzip_read = (\<lambda>gcs_file. Inr sales_content) \<rparr>"

definition sales_connector :: storage_connector where
  "sales_connector =
     \<lparr> bucket_name = py ''bucket'', project_name = py ''proj'', sc_dataset = py ''ds'',
       tables_to_skip = [] \<rparr>"

text \<open>The schema of \<open>folder_1\<close> and the data frame that \<open>prepare_df\<close> makes of
  \<open>small_df\<close> there.\<close>

definition folder1_schema :: "field list" where
  "folder1_schema =
     declared_fields latin1_sample (py ''folder_1'') folder12_config
     @ timestamp_fields latin1_sample folder12_config"

definition prepared_df :: df where
  "prepared_df = \<lparr> df_columns = [py ''ts_ms'', py ''column_1'', py ''file''], df_nrows = 1 \<rparr>"

definition one_folder :: "pystr \<Rightarrow> pystr option" where
  "one_folder = folders_dict_of [\<lparr> fd_id = py ''p1'', fd_name = py ''folder_1'' \<rparr>]"

text \<open>What happens to the two files in a run of \<open>two_files_env\<close> with counter 1: for
  each the query, the download and the load, without a sleep.\<close>

definition two_files_trace :: "pystr \<Rightarrow> pystr \<Rightarrow> event list" where
  "two_files_trace ds proj =
     [Query (proj @ py ''.'' @ ds @ py ''.'' @ py ''folder_1'') (py ''a.csv''),
      Download (py ''ia''),
      Load (ds @ py ''.'' @ py ''folder_1'') (py ''a.csv'') folder1_schema prepared_df None,
      Query (proj @ py ''.'' @ ds @ py ''.'' @ py ''folder_1'') (py ''b.csv''),
      Download (py ''ib''),
      Load (ds @ py ''.'' @ py ''folder_1'') (py ''b.csv'') folder1_schema prepared_df None]"

text \<open>A second connector, made in the same process after the run of the first.\<close>

definition second_connector :: world where
  "second_connector =
     DriveConnector (py ''drive'') (py ''ds'') (py ''proj'')
       (snd (run_transfer two_files_env first_connector))"


section \<open>Properties of the column-name normalisation\<close>

lemma replace_chars_index_Cons:
  "replace_chars_index chars (x # xs) = replace_chars chars x # replace_chars_index chars xs"
  by (induction chars arbitrary: x xs) simp_all

lemma replace_chars_index_Nil: "replace_chars_index chars [] = []"
  by (induction chars) simp_all

lemma replace_chars_index_map:
  "replace_chars_index chars columns = map (replace_chars chars) columns"
  by (induction columns) (simp_all add: replace_chars_index_Nil replace_chars_index_Cons)

text \<open>
  Claim C8. The normaliser of a sequence of column names (\<open>clean_column_names\<close>) gives
  the same result as the normaliser of one label (\<open>clean_column_str\<close>) applied to
  every element; both are functions of their input and of the transliteration table.
\<close>

theorem clean_column_names_elementwise:
  "clean_column_names tbl columns = map (clean_column_str tbl) columns"
  by (simp add: clean_column_names_def clean_column_str_def replace_chars_index_map)

lemma set_replace_subset: "set (replace old new s) \<subseteq> set s \<union> set new"
proof (induction old new s rule: replace.induct)
  case (1 new s)
  then show ?case by auto
next
  case (2 v va new)
  then show ?case by simp
next
  case (3 v va new c cs)
  have "set (drop (length (v # va)) (c # cs)) \<subseteq> set (c # cs)"
    by (rule set_drop_subset)
  with 3 show ?case by (auto split: if_splits)
qed

lemma replace_ascii:
  assumes "\<forall>c\<in>set s. c < (128::nat)" "\<forall>c\<in>set new. c < 128"
  shows "\<forall>c\<in>set (replace old new s). c < 128"
  using set_replace_subset [of old new s] assms by auto

lemma replace_absent: "c \<notin> set s \<Longrightarrow> replace (c # cs) new s = s"
  by (induction s) auto

lemma set_replace_single: "set (replace [c] new s) \<subseteq> (set s - {c}) \<union> set new"
  by (induction s) auto

lemma set_replace_chars:
  "set (replace_chars chars s) \<subseteq> (set s - set chars) \<union> {95}"
proof (induction chars arbitrary: s)
  case Nil
  then show ?case by auto
next
  case (Cons c chars)
  have "set (replace [c] (py ''_'') s) \<subseteq> (set s - {c}) \<union> {95}"
    using set_replace_single [of c "py ''_''" s] by (simp add: py_def)
  with Cons [of "replace [c] (py ''_'') s"] show ?case by auto
qed

lemma replace_chars_absent:
  "set chars \<inter> set s = {} \<Longrightarrow> replace_chars chars s = s"
  by (induction chars arbitrary: s) (auto simp: replace_absent)

lemma unidecode_ascii: "\<forall>c\<in>set s. c < 128 \<Longrightarrow> unidecode tbl s = s"
  by (induction s) (simp_all add: unidecode_def)

text \<open>A name of ASCII characters none of which is replaced is left as it is.\<close>

lemma clean_column_str_fixed:
  assumes "\<forall>c\<in>set y. c < 128 \<and> c \<notin> set chars_to_replace"
  shows "clean_column_str tbl y = y"
proof -
  have "91 \<notin> set y"
    using assms by (auto simp: chars_to_replace_def)
  then have r: "replace (py ''[+]'') (py ''plus'') y = y"
    "replace (py ''[-]'') (py ''minus'') y = y"
    by (simp_all add: py_def replace_absent)
  have "set chars_to_replace \<inter> set y = {}"
    using assms by auto
  then have "replace_chars chars_to_replace y = y"
    by (rule replace_chars_absent)
  with r assms show ?thesis
    by (simp add: clean_column_str_def unidecode_ascii)
qed

text \<open>On a name of ASCII characters the normalisation is idempotent, whatever the
  transliteration table.\<close>

lemma clean_column_str_idem_ascii:
  assumes "\<forall>c\<in>set x. c < 128"
  shows "clean_column_str tbl (clean_column_str tbl x) = clean_column_str tbl x"
proof -
  let ?r = "replace (py ''[-]'') (py ''minus'') (replace (py ''[+]'') (py ''plus'') x)"
  let ?y = "replace_chars chars_to_replace ?r"
  have "\<forall>c\<in>set (replace (py ''[+]'') (py ''plus'') x). c < 128"
    by (rule replace_ascii [OF assms]) (simp add: py_def)
  then have a: "\<forall>c\<in>set ?r. c < 128"
    by (rule replace_ascii) (simp add: py_def)
  have s: "set ?y \<subseteq> (set ?r - set chars_to_replace) \<union> {95}"
    by (rule set_replace_chars)
  have y: "\<forall>c\<in>set ?y. c < 128 \<and> c \<notin> set chars_to_replace"
    using s a by (auto simp: chars_to_replace_def)
  then have "unidecode tbl ?y = ?y"
    by (simp add: unidecode_ascii)
  then have "clean_column_str tbl x = ?y"
    by (simp add: clean_column_str_def)
  with y show ?thesis
    by (simp add: clean_column_str_fixed)
qed

text \<open>
  Claim C7. Normalising a column name twice should give the same as normalising it
  once. The transliteration runs after the characters that BigQuery does not allow are
  replaced, and it can bring such a character back: the label \<open>a\<close>, no-break space,
  \<open>b\<close> is normalised to \<open>a b\<close>, which still holds a space, and a second normalisation
  turns that into \<open>a_b\<close>.
\<close>

theorem clean_column_str_second_pass_differs:
  "clean_column_str latin1_sample (py ''a'' @ [160] @ py ''b'') = py ''a b''
   \<and> clean_column_str latin1_sample (py ''a b'') = py ''a_b''"
  by (simp add: clean_column_str_def chars_to_replace_def py_def unidecode_def
      latin1_sample_def)


section \<open>Properties of the schema derivation\<close>

lemma dtypes_loop_eq:
  "dtypes_loop tbl folder_name (dtypes cfg) schema =
     schema @ declared_fields tbl folder_name cfg"
proof -
  have "dtypes_loop tbl folder_name ds schema =
     schema @ map (\<lambda>(column, ty).
            \<lparr> f_name = clean_column_str tbl column,
              f_type = bq_types_mapping
                (if folder_name = py ''folder_3'' \<and> column \<in> set folder3_columns_to_float
                 then PyFloat else ty),
              f_description = column \<rparr>) ds" for ds
    by (induction ds arbitrary: schema) auto
  then show ?thesis
    by (simp add: declared_fields_def)
qed

lemma date_cols_loop_eq:
  "date_cols_loop tbl dcs schema =
     schema @ map (\<lambda>date_col. \<lparr> f_name = clean_column_str tbl date_col,
                                f_type = py ''TIMESTAMP'',
                                f_description = date_col \<rparr>) dcs"
  by (induction dcs arbitrary: schema) auto

lemma create_schema_of_entry:
  "cfgs folder_name = Some (Entry cfg) \<Longrightarrow>
   create_schema tbl cfgs folder_name =
     Inr (declared_fields tbl folder_name cfg @ timestamp_fields tbl cfg)"
  by (simp add: create_schema_def dtypes_loop_eq date_cols_loop_eq timestamp_fields_def
      date_columns_def Let_def split: option.splits)

text \<open>
  Claim C6. For every entry of the configuration, the derived schema is the list of the
  declared columns in their order of declaration, each typed through the table
  int to INT64, str to STRING, float to FLOAT64, bool to BOOLEAN after the override of
  folder_3 (\<open>declared_fields\<close>), followed by one TIMESTAMP field for each date column
  (\<open>timestamp_fields\<close>). Its length is the number of declared columns plus the number
  of date columns, and the description of every field is the label before
  normalisation.
\<close>

theorem create_schema_entry:
  assumes "cfgs folder_name = Some (Entry cfg)"
  shows "create_schema tbl cfgs folder_name =
           Inr (declared_fields tbl folder_name cfg @ timestamp_fields tbl cfg)
         \<and> length (declared_fields tbl folder_name cfg @ timestamp_fields tbl cfg) =
             length (dtypes cfg) + length (date_columns cfg)
         \<and> map f_description (declared_fields tbl folder_name cfg @ timestamp_fields tbl cfg) =
             map fst (dtypes cfg) @ date_columns cfg
         \<and> map f_type (timestamp_fields tbl cfg) =
             replicate (length (date_columns cfg)) (py ''TIMESTAMP'')"
proof -
  have "create_schema tbl cfgs folder_name =
           Inr (declared_fields tbl folder_name cfg @ timestamp_fields tbl cfg)"
    using assms by (rule create_schema_of_entry)
  moreover have "map f_description (declared_fields tbl folder_name cfg) = map fst (dtypes cfg)"
    by (simp add: declared_fields_def split_def)
  moreover have "map f_description (timestamp_fields tbl cfg) = date_columns cfg"
    by (simp add: timestamp_fields_def comp_def)
  moreover have "map f_type (timestamp_fields tbl cfg) =
             replicate (length (date_columns cfg)) (py ''TIMESTAMP'')"
    by (simp add: timestamp_fields_def comp_def map_replicate_const)
  ultimately show ?thesis
    by (simp add: declared_fields_def timestamp_fields_def)
qed

theorem create_schema_entry_witness:
  "configs (py ''folder_3'') = Some (Entry folder3_config)
   \<and> create_schema latin1_sample configs (py ''folder_3'') =
       Inr (declared_fields latin1_sample (py ''folder_3'') folder3_config
            @ timestamp_fields latin1_sample folder3_config)
   \<and> length (declared_fields latin1_sample (py ''folder_3'') folder3_config
            @ timestamp_fields latin1_sample folder3_config) = 8
   \<and> map f_type (declared_fields latin1_sample (py ''folder_3'') folder3_config) =
       [py ''STRING'', py ''INT64'', py ''STRING'', py ''FLOAT64'', py ''FLOAT64'',
        py ''STRING'', py ''FLOAT64'']"
proof -
  have h: "configs (py ''folder_3'') = Some (Entry folder3_config)"
    by (simp add: configs_def py_def)
  have l: "length (dtypes folder3_config) + length (date_columns folder3_config) = 8"
    by (simp add: folder3_config_def date_columns_def)
  have t: "map f_type (declared_fields latin1_sample (py ''folder_3'') folder3_config) =
       [py ''STRING'', py ''INT64'', py ''STRING'', py ''FLOAT64'', py ''FLOAT64'',
        py ''STRING'', py ''FLOAT64'']"
    by (simp add: declared_fields_def folder3_config_def folder3_columns_to_float_def py_def)
  show ?thesis
    using create_schema_entry [where cfgs = configs and folder_name = "py ''folder_3''"
        and cfg = folder3_config and tbl = latin1_sample] h l t
    by simp
qed


section \<open>Properties of the Storage connector\<close>

text \<open>The loop over \<open>enumerate\<close> leaves the index of the last line.\<close>

lemma enumerate_loop_eq:
  "enumerate_loop i ls lines = (if ls = [] then lines else Some (i + int (length ls) - 1))"
  by (induction ls arbitrary: i lines) auto

lemma count_lines_eq:
  assumes "gzip_read sen (bucket_name sc @ py ''/'' @ blob_name b) = Inr content"
    and "readlines content \<noteq> []"
  shows "count_lines sen sc tr b =
           (Return (int (length (readlines content)) - 1),
            tr @ [RowsCounted (int (length (readlines content)) - 1)])"
  using assms by (simp add: count_lines_def enumerate_loop_eq)

text \<open>
  Claim C9, as amended. For every object whose decompressed content has at least one
  line, the count recomputed by \<open>count_lines\<close> is the number of lines minus one (the
  header line is not counted). It is compared with the row count that the load step
  returns; whether the two are equal or not, only a message is logged, no exception is
  raised, and the loop goes on with the next object.
\<close>

theorem verifier_counts_and_continues:
  assumes "get_table_name_from_blob b = Inr table_name"
    and "\<not> check_if_table_to_skip sc table_name"
    and "load_table_from_uri sen tr (get_uri_from_blob sc b)
           (project_name sc @ py ''.'' @ sc_dataset sc @ py ''.'' @ table_name) = Inr rows_loaded"
    and "gzip_read sen (bucket_name sc @ py ''/'' @ blob_name b) = Inr content"
    and "readlines content \<noteq> []"
  shows "process_blob sen sc b tr =
           (Return (),
            tr @ [LoadUri (get_uri_from_blob sc b)
                    (project_name sc @ py ''.'' @ sc_dataset sc @ py ''.'' @ table_name),
                  RowsCounted (int (length (readlines content)) - 1),
                  if int rows_loaded = int (length (readlines content)) - 1
                  then LoadedRows rows_loaded
                  else DifferentRows rows_loaded (int (length (readlines content)) - 1)])
         \<and> blobs_loop sen sc (b # bs) tr = blobs_loop sen sc bs (snd (process_blob sen sc b tr))"
proof -
  have p: "process_blob sen sc b tr =
           (Return (),
            tr @ [LoadUri (get_uri_from_blob sc b)
                    (project_name sc @ py ''.'' @ sc_dataset sc @ py ''.'' @ table_name),
                  RowsCounted (int (length (readlines content)) - 1),
                  if int rows_loaded = int (length (readlines content)) - 1
                  then LoadedRows rows_loaded
                  else DifferentRows rows_loaded (int (length (readlines content)) - 1)])"
    using assms
    by (simp add: process_blob_def check_if_all_rows_uploaded_def upload_data_to_bq_def
        count_lines_eq Let_def)
  then show ?thesis by simp
qed

theorem verifier_counts_and_continues_witness:
  "process_blob (sales_env 7) sales_connector sales_blob [] =
     (Return (), [LoadUri (py ''gs://bucket/2019/sales.csv.gz'') (py ''proj.ds.sales''),
                  RowsCounted 2, DifferentRows 7 2])
   \<and> blobs_loop (sales_env 7) sales_connector [sales_blob, sales_blob] [] =
       blobs_loop (sales_env 7) sales_connector [sales_blob]
         [LoadUri (py ''gs://bucket/2019/sales.csv.gz'') (py ''proj.ds.sales''),
          RowsCounted 2, DifferentRows 7 2]"
proof -
  have n: "get_table_name_from_blob sales_blob = Inr (py ''sales'')"
    by (simp add: get_table_name_from_blob_def sales_blob_def py_def)
  have k: "\<not> check_if_table_to_skip sales_connector (py ''sales'')"
    by (simp add: check_if_table_to_skip_def sales_connector_def)
  have l: "load_table_from_uri (sales_env 7) [] (get_uri_from_blob sales_connector sales_blob)
      (project_name sales_connector @ py ''.'' @ sc_dataset sales_connector @ py ''.'' @ py ''sales'')
      = Inr 7"
    by (simp add: sales_env_def)
  have g: "gzip_read (sales_env 7) (bucket_name sales_connector @ py ''/'' @ blob_name sales_blob)
      = Inr sales_content"
    by (simp add: sales_env_def)
  have r: "readlines sales_content = [py ''id;v'' @ [10], py ''1;a'' @ [10], py ''2;b'' @ [10]]"
    by (simp add: readlines_def sales_content_def py_def)
  then have r': "readlines sales_content \<noteq> []" by simp
  have u: "get_uri_from_blob sales_connector sales_blob = py ''gs://bucket/2019/sales.csv.gz''"
    "project_name sales_connector @ py ''.'' @ sc_dataset sales_connector @ py ''.'' @ py ''sales''
       = py ''proj.ds.sales''"
    by (simp_all add: get_uri_from_blob_def sales_connector_def sales_blob_def py_def)
  show ?thesis
    using verifier_counts_and_continues [OF n k l g r', of "[sales_blob]"] r u
    by simp
qed

text \<open>
  Claim C9 as stated says that the recomputed count equals the number of
  newline-delimited records of the decompressed object. An object of three lines is
  counted as 2.
\<close>

theorem count_lines_omits_one_line:
  "length (readlines sales_content) = 3
   \<and> fst (count_lines (sales_env 3) sales_connector [] sales_blob) = Return 2"
  by (simp add: readlines_def sales_content_def py_def count_lines_def sales_env_def Let_def)


section \<open>Properties of the Drive connector\<close>

lemma first_connector_fields:
  "events first_connector = []" "project first_connector = py ''proj''"
  "dataset first_connector = py ''ds''" "shared_drive_name first_connector = py ''drive''"
  "cls_files_added first_connector = []" "cls_counter first_connector = 1"
  "inst_counter first_connector = None"
  by (simp_all add: first_connector_def DriveConnector_def module_loaded_def)

text \<open>
  Claim C4. When the parsed table of a file has no row, \<open>upload_csv_to_bq\<close> returns
  after the download with one mail for that file (the error mail with the text
  \<open>CSV is empty!\<close>): no load job is attempted, the file is not recorded in
  \<open>files_added\<close> and the throttle counter is unchanged.
\<close>

theorem empty_csv_skipped:
  assumes "configs folder_name = Some (Entry cfg)"
    and "read_csv en (events w) file_id cfg = Inr d"
    and "df_nrows d = 0"
  shows "upload_csv_to_bq en w folder_name file_name file_id =
           (Return (),
            w\<lparr> events := events w @
                 [Download file_id,
                  Mail error_subject (error_text file_name folder_name (py ''CSV is empty!''))] \<rparr>)"
  using assms
  by (simp add: upload_csv_to_bq_def get_df_from_file_id_def df_empty_def send_error_mail_def
      emit_def)

theorem empty_csv_skipped_witness:
  "configs (py ''folder_1'') = Some (Entry folder12_config)
   \<and> df_nrows \<lparr> df_columns = [py ''column_1''], df_nrows = 0 \<rparr> = 0
   \<and> upload_csv_to_bq empty_csv_env first_connector (py ''folder_1'') (py ''a.csv'') (py ''ia'') =
       (Return (),
        first_connector\<lparr> events :=
          [Download (py ''ia''),
           Mail error_subject (error_text (py ''a.csv'') (py ''folder_1'') (py ''CSV is empty!''))] \<rparr>)"
proof -
  have c: "configs (py ''folder_1'') = Some (Entry folder12_config)"
    by (simp add: configs_def py_def)
  have r: "read_csv empty_csv_env (events first_connector) (py ''ia'') folder12_config =
      Inr \<lparr> df_columns = [py ''column_1''], df_nrows = 0 \<rparr>"
    by (simp add: empty_csv_env_def)
  have z: "df_nrows \<lparr> df_columns = [py ''column_1''], df_nrows = 0 \<rparr> = 0"
    by simp
  have e: "events first_connector = []"
    by (simp add: first_connector_def DriveConnector_def module_loaded_def)
  show ?thesis
    using empty_csv_skipped [OF c r z, of "py ''a.csv''"] c e by simp
qed


lemma if_table_not_in_bq_world:
  "snd (if_table_not_in_bq en w folder_name file_name) =
     emit (Query (table_path w folder_name) file_name) w"
  by (simp add: if_table_not_in_bq_def Let_def split: sum.splits)

lemma process_item_gate:
  assumes "gate_target folders_dict it = Some (folder_name, file_name)"
  shows "process_item en folders_dict it w =
           (case if_table_not_in_bq en w folder_name file_name of
              (Raise e, w1) \<Rightarrow> (Raise e, w1)
            | (Return proceed, w1) \<Rightarrow>
                (if proceed then upload_csv_to_bq en w1 folder_name file_name (item_id it)
                 else (Return (), w1)))"
  using assms
  by (auto simp: gate_target_def process_item_def Let_def
      split: if_splits list.splits option.splits)

text \<open>
  Claim C1, as amended. For a call of the dedup gate \<open>if_table_not_in_bq\<close> with a
  folder and a file name: when the result of the query raises NotFound (the table does
  not exist) the gate returns True (proceed); when the query gives no row it returns
  True; when it gives at least one row it returns False (skip). Any other failure of
  the query, raised by \<open>bq_client.query\<close> or by \<open>result()\<close>, is raised by the gate and
  is caught nowhere: the loop over the items stops at that item, no later item is
  processed, no summary mail is sent, and the run ends with that exception.
\<close>

theorem dedup_gate_outcomes:
  "(bq_query en (events w) (table_path w folder_name) file_name = Inr (Inl NotFound) \<longrightarrow>
      fst (if_table_not_in_bq en w folder_name file_name) = Return True)
   \<and> (bq_query en (events w) (table_path w folder_name) file_name = Inr (Inr 0) \<longrightarrow>
      fst (if_table_not_in_bq en w folder_name file_name) = Return True)
   \<and> (bq_query en (events w) (table_path w folder_name) file_name = Inr (Inr (Suc k)) \<longrightarrow>
      fst (if_table_not_in_bq en w folder_name file_name) = Return False)
   \<and> ((bq_query en (events w) (table_path w folder_name) file_name = Inl e
        \<or> (bq_query en (events w) (table_path w folder_name) file_name = Inr (Inl e)
            \<and> e \<noteq> NotFound))
       \<and> gate_target folders_dict it = Some (folder_name, file_name) \<longrightarrow>
      iterate_through_items en w (it # items) folders_dict =
        (Raise e, emit (Query (table_path w folder_name) file_name) w))"
proof (intro conjI impI)
  assume "bq_query en (events w) (table_path w folder_name) file_name = Inr (Inl NotFound)"
  then show "fst (if_table_not_in_bq en w folder_name file_name) = Return True"
    by (simp add: if_table_not_in_bq_def Let_def)
next
  assume "bq_query en (events w) (table_path w folder_name) file_name = Inr (Inr 0)"
  then show "fst (if_table_not_in_bq en w folder_name file_name) = Return True"
    by (simp add: if_table_not_in_bq_def Let_def)
next
  assume "bq_query en (events w) (table_path w folder_name) file_name = Inr (Inr (Suc k))"
  then show "fst (if_table_not_in_bq en w folder_name file_name) = Return False"
    by (simp add: if_table_not_in_bq_def Let_def)
next
  assume a: "(bq_query en (events w) (table_path w folder_name) file_name = Inl e
        \<or> (bq_query en (events w) (table_path w folder_name) file_name = Inr (Inl e)
            \<and> e \<noteq> NotFound))
       \<and> gate_target folders_dict it = Some (folder_name, file_name)"
  then have g: "if_table_not_in_bq en w folder_name file_name =
      (Raise e, emit (Query (table_path w folder_name) file_name) w)"
    by (auto simp: if_table_not_in_bq_def Let_def)
  from a have "process_item en folders_dict it w =
      (Raise e, emit (Query (table_path w folder_name) file_name) w)"
    by (simp add: process_item_gate g)
  then show "iterate_through_items en w (it # items) folders_dict =
        (Raise e, emit (Query (table_path w folder_name) file_name) w)"
    by (simp add: iterate_through_items_def)
qed

lemma gate_target_file_a:
  "gate_target (folders_dict_of [\<lparr> fd_id = py ''p1'', fd_name = py ''folder_1'' \<rparr>]) file_a =
     Some (py ''folder_1'', py ''a.csv'')"
  by (simp add: gate_target_def file_a_def all_folders_def py_def)

theorem dedup_gate_outcomes_witness:
  "fst (if_table_not_in_bq (gate_env (Inr (Inl NotFound))) first_connector
          (py ''folder_1'') (py ''a.csv'')) = Return True
   \<and> fst (if_table_not_in_bq (gate_env (Inr (Inr 0))) first_connector
          (py ''folder_1'') (py ''a.csv'')) = Return True
   \<and> fst (if_table_not_in_bq (gate_env (Inr (Inr (Suc 0)))) first_connector
          (py ''folder_1'') (py ''a.csv'')) = Return False
   \<and> iterate_through_items (gate_env (Inl (OtherError (py ''timeout'')))) first_connector
        [file_a, file_b] (folders_dict_of [\<lparr> fd_id = py ''p1'', fd_name = py ''folder_1'' \<rparr>]) =
       (Raise (OtherError (py ''timeout'')),
        emit (Query (table_path first_connector (py ''folder_1'')) (py ''a.csv'')) first_connector)"
proof -
  have q: "bq_query (gate_env answer) h t f = answer" for answer h t f
    by (simp add: gate_env_def)
  show ?thesis
    using dedup_gate_outcomes [where en = "gate_env (Inr (Inl NotFound))" and w = first_connector
        and folder_name = "py ''folder_1''" and file_name = "py ''a.csv''"]
      dedup_gate_outcomes [where en = "gate_env (Inr (Inr 0))" and w = first_connector
        and folder_name = "py ''folder_1''" and file_name = "py ''a.csv''"]
      dedup_gate_outcomes [where en = "gate_env (Inr (Inr (Suc 0)))" and w = first_connector
        and folder_name = "py ''folder_1''" and file_name = "py ''a.csv''" and k = 0]
      dedup_gate_outcomes [where en = "gate_env (Inl (OtherError (py ''timeout'')))"
        and w = first_connector and e = "OtherError (py ''timeout'')"
        and folder_name = "py ''folder_1''" and file_name = "py ''a.csv''" and it = file_a
        and items = "[file_b]"
        and folders_dict = "folders_dict_of [\<lparr> fd_id = py ''p1'', fd_name = py ''folder_1'' \<rparr>]"]
      gate_target_file_a
    by (simp add: q)
qed

text \<open>
  Claim C1 as stated says that after a query failure other than a missing table the run
  continues with the next object. With two new files and a query that is rejected, the
  run ends with the exception after the query for the first file: the second file is
  never looked at.
\<close>

theorem query_failure_stops_run:
  "run_transfer query_fails_env first_connector =
     (Raise (BadRequest (py ''invalid query'')),
      first_connector\<lparr> events := [Query (py ''proj.ds.folder_1'') (py ''a.csv'')] \<rparr>)"
  by code_simp


text \<open>
  Claim C3, as amended. When a listing call of the discovery raises (the listing of the
  drives, of the folders or of the files), \<open>run_transfer\<close> raises the same exception
  and leaves the state as it was: no query, download, load or mail has happened.
\<close>

theorem discovery_failure_aborts:
  "(drives_list en = Inl e \<longrightarrow> run_transfer en w = (Raise e, w))
   \<and> (get_shared_drive_id en w = Return shared_drive_id
       \<and> list_folders en shared_drive_id = Inl e \<longrightarrow> run_transfer en w = (Raise e, w))
   \<and> (get_shared_drive_id en w = Return shared_drive_id
       \<and> list_folders en shared_drive_id = Inr folders_ids
       \<and> list_items en shared_drive_id = Inl e \<longrightarrow> run_transfer en w = (Raise e, w))"
  by (simp add: run_transfer_def get_shared_drive_id_def)

theorem discovery_failure_aborts_witness:
  "drives_list drives_fail_env = Inl (OtherError (py ''HttpError''))
   \<and> run_transfer drives_fail_env first_connector =
       (Raise (OtherError (py ''HttpError'')), first_connector)
   \<and> get_shared_drive_id folders_fail_env first_connector = Return (Some (py ''d1''))
   \<and> list_folders folders_fail_env (Some (py ''d1'')) = Inl (OtherError (py ''HttpError''))
   \<and> run_transfer folders_fail_env first_connector =
       (Raise (OtherError (py ''HttpError'')), first_connector)
   \<and> get_shared_drive_id listing_fails_env first_connector = Return (Some (py ''d1''))
   \<and> list_items listing_fails_env (Some (py ''d1'')) = Inl (OtherError (py ''HttpError''))
   \<and> run_transfer listing_fails_env first_connector =
       (Raise (OtherError (py ''HttpError'')), first_connector)
   \<and> events first_connector = []"
proof -
  have d: "drives_list drives_fail_env = Inl (OtherError (py ''HttpError''))"
    by (simp add: drives_fail_env_def)
  have g2: "get_shared_drive_id folders_fail_env first_connector = Return (Some (py ''d1''))"
    by (simp add: get_shared_drive_id_def folders_fail_env_def two_files_env_def
        first_connector_fields)
  have f2: "list_folders folders_fail_env (Some (py ''d1'')) = Inl (OtherError (py ''HttpError''))"
    by (simp add: folders_fail_env_def)
  have g: "get_shared_drive_id listing_fails_env first_connector = Return (Some (py ''d1''))"
    by (simp add: get_shared_drive_id_def listing_fails_env_def two_files_env_def
        first_connector_fields)
  have f: "list_folders listing_fails_env (Some (py ''d1'')) =
      Inr [\<lparr> fd_id = py ''p1'', fd_name = py ''folder_1'' \<rparr>]"
    by (simp add: listing_fails_env_def two_files_env_def)
  have i: "list_items listing_fails_env (Some (py ''d1'')) = Inl (OtherError (py ''HttpError''))"
    by (simp add: listing_fails_env_def)
  show ?thesis
    using discovery_failure_aborts [where en = drives_fail_env and w = first_connector
        and e = "OtherError (py ''HttpError'')"]
      discovery_failure_aborts [where en = folders_fail_env and w = first_connector
        and shared_drive_id = "Some (py ''d1'')" and e = "OtherError (py ''HttpError'')"]
      discovery_failure_aborts [where en = listing_fails_env and w = first_connector
        and shared_drive_id = "Some (py ''d1'')" and e = "OtherError (py ''HttpError'')"
        and folders_ids = "[\<lparr> fd_id = py ''p1'', fd_name = py ''folder_1'' \<rparr>]"]
      d g2 f2 g f i first_connector_fields(1)
    by simp
qed

text \<open>
  Claim C3 as stated says that a discovery failure is the only condition that ends the
  run. Here the three listing calls succeed and the download of the first file fails in
  the transport: the run ends with that exception, and the second file is not processed.
\<close>

theorem download_failure_terminates_run:
  "get_shared_drive_id download_fails_env first_connector = Return (Some (py ''d1''))
   \<and> list_folders download_fails_env (Some (py ''d1'')) =
       Inr [\<lparr> fd_id = py ''p1'', fd_name = py ''folder_1'' \<rparr>]
   \<and> list_items download_fails_env (Some (py ''d1'')) = Inr [file_a, file_b]
   \<and> run_transfer download_fails_env first_connector =
       (Raise (OtherError (py ''HttpError'')),
        first_connector\<lparr> events := [Query (py ''proj.ds.folder_1'') (py ''a.csv''),
                                     Download (py ''ia'')] \<rparr>)"
  by code_simp


subsection \<open>What the steps of a run do to the state\<close>

lemma recorded_names_append:
  "recorded_names (xs @ ys) = recorded_names xs @ recorded_names ys"
  by (induction xs rule: recorded_names.induct) simp_all

lemma loaded_names_append:
  "loaded_names (xs @ ys) = loaded_names xs @ loaded_names ys"
  by (induction xs rule: loaded_names.induct) simp_all

lemma attempts_append: "attempts (xs @ ys) = attempts xs + attempts ys"
  by (induction xs rule: attempts.induct) simp_all

lemma throttle_ok_append:
  "throttle_ok c s xs \<Longrightarrow> throttle_ok (c + int (attempts xs)) False ys \<Longrightarrow>
   throttle_ok c s (xs @ ys)"
proof (induction xs arbitrary: c s)
  case Nil
  then show ?case by simp
next
  case (Cons e es)
  show ?case
  proof (cases e)
    case (Load t f sch d r)
    with Cons.prems Cons.IH [of "c + 1" False] show ?thesis
      by (simp add: ac_simps)
  qed (use Cons in auto)
qed

lemma error_subject_not_summary:
  "error_subject \<noteq> completed_subject" "error_subject \<noteq> no_file_subject"
  by (simp_all add: error_subject_def completed_subject_def no_file_subject_def py_def)

text \<open>\<open>effect\<close> holds of a step that does nothing, and of two steps in a row.\<close>

lemma effect_refl: "effect en w (r, w) []"
  by (simp add: effect_def)

lemma effect_trans:
  assumes "effect en w (Return (), w1) new1" and "effect en w1 rw new2"
  shows "effect en w rw (new1 @ new2)"
  using assms
  by (auto simp: effect_def recorded_names_append loaded_names_append attempts_append
      throttle_ok_append)


lemma self_counter_simps:
  "self_counter (w\<lparr> events := es \<rparr>) = self_counter w"
  "self_counter (w\<lparr> cls_files_added := fs \<rparr>) = self_counter w"
  "self_counter (w\<lparr> inst_counter := Some c \<rparr>) = c"
  by (simp_all add: self_counter_def split: option.splits)

text \<open>A load attempt adds an optional sleep, the load event and, after ValueError, the
  error mail; it leaves the list of the class as it is.\<close>

lemma upload_df_to_bq_effect:
  assumes "configs folder_name = Some (Entry cfg)"
  shows "\<exists>new. events (snd (upload_df_to_bq en w d folder_name file_name)) = events w @ new
      \<and> cls_files_added (snd (upload_df_to_bq en w d folder_name file_name)) = cls_files_added w
      \<and> cls_counter (snd (upload_df_to_bq en w d folder_name file_name)) = cls_counter w
      \<and> shared_drive_name (snd (upload_df_to_bq en w d folder_name file_name)) = shared_drive_name w
      \<and> dataset (snd (upload_df_to_bq en w d folder_name file_name)) = dataset w
      \<and> project (snd (upload_df_to_bq en w d folder_name file_name)) = project w
      \<and> (\<forall>e\<in>set new. \<not> is_summary e)
      \<and> throttle_ok (self_counter w) False new
      \<and> attempts new = 1
      \<and> (no_value_error en \<longrightarrow> recorded_names new = loaded_names new)
      \<and> (case fst (upload_df_to_bq en w d folder_name file_name) of
            Return u \<Rightarrow> recorded_names new = [file_name]
               \<and> self_counter (snd (upload_df_to_bq en w d folder_name file_name)) =
                   self_counter w + 1
          | Raise e \<Rightarrow> recorded_names new = [])"
proof -
  obtain schema where s: "create_schema (translit en) configs folder_name = Inr schema"
    using assms by (simp add: create_schema_of_entry)
  let ?pre = "if self_counter w mod 5 = 0 then [Sleep 10] else []"
  let ?w1 = "if self_counter w mod 5 = 0 then emit (Sleep 10) w else w"
  let ?r = "load_job en (events ?w1) (dataset w @ py ''.'' @ folder_name) schema d"
  let ?ld = "Load (dataset w @ py ''.'' @ folder_name) file_name schema d ?r"
  show ?thesis
  proof (cases ?r)
    case None
    then show ?thesis
      using s
      by (intro exI [of _ "?pre @ [?ld]"])
         (simp add: upload_df_to_bq_def Let_def emit_def self_counter_simps)
  next
    case (Some e)
    show ?thesis
    proof (cases "\<exists>msg. e = ValueError msg")
      case True
      then obtain msg where m: "e = ValueError msg" by blast
      with Some have "\<not> no_value_error en"
        unfolding no_value_error_def by blast
      with m Some s show ?thesis
        by (intro exI [of _ "?pre @ [?ld, Mail error_subject (error_text file_name folder_name msg)]"])
           (simp add: upload_df_to_bq_def Let_def emit_def self_counter_simps send_error_mail_def
              error_subject_not_summary)
    next
      case False
      with Some s show ?thesis
        by (intro exI [of _ "?pre @ [?ld]"])
           (cases e; simp add: upload_df_to_bq_def Let_def emit_def self_counter_simps)
    qed
  qed
qed


text \<open>Each of \<open>upload_csv_to_bq\<close>, the loop body and the loop satisfies \<open>effect\<close>.\<close>

lemma upload_csv_to_bq_effect:
  "\<exists>new. effect en w (upload_csv_to_bq en w folder_name file_name file_id) new"
proof (cases "configs folder_name")
  case None
  then have "upload_csv_to_bq en w folder_name file_name file_id = (Raise KeyError, w)"
    by (simp add: upload_csv_to_bq_def get_df_from_file_id_def)
  then show ?thesis
    using effect_refl by (intro exI [of _ "[]"]) simp
next
  case (Some v)
  show ?thesis
  proof (cases v)
    case (Folders fs)
    with Some have "upload_csv_to_bq en w folder_name file_name file_id = (Raise AttributeError, w)"
      by (simp add: upload_csv_to_bq_def get_df_from_file_id_def)
    then show ?thesis
      using effect_refl by (intro exI [of _ "[]"]) simp
  next
    case (Entry cfg)
    with Some have c: "configs folder_name = Some (Entry cfg)" by simp
    let ?w1 = "emit (Download file_id) w"
    show ?thesis
    proof (cases "read_csv en (events w) file_id cfg")
      case (Inl e)
      show ?thesis
      proof (cases "\<exists>msg. e = ValueError msg")
        case True
        then obtain msg where "e = ValueError msg" by blast
        with Inl c show ?thesis
          by (intro exI [of _ "[Download file_id,
                 Mail error_subject (error_text file_name folder_name msg)]"])
             (simp add: effect_def upload_csv_to_bq_def get_df_from_file_id_def emit_def
                send_error_mail_def self_counter_simps error_subject_not_summary)
      next
        case False
        with Inl c show ?thesis
          by (intro exI [of _ "[Download file_id]"])
             (cases e; simp add: effect_def upload_csv_to_bq_def get_df_from_file_id_def emit_def
                self_counter_simps)
      qed
    next
      case (Inr d)
      with c have g: "get_df_from_file_id en w file_id file_name folder_name = (Return d, ?w1)"
        by (simp add: get_df_from_file_id_def)
      show ?thesis
      proof (cases "df_empty d")
        case True
        with g show ?thesis
          by (intro exI [of _ "[Download file_id,
                 Mail error_subject (error_text file_name folder_name (py ''CSV is empty!''))]"])
             (simp add: effect_def upload_csv_to_bq_def emit_def
                send_error_mail_def self_counter_simps error_subject_not_summary)
      next
        case False
        show ?thesis
        proof (cases "prepare_df en d file_name folder_name")
          case (Inl e)
          with g False show ?thesis
            by (intro exI [of _ "[Download file_id]"])
               (simp add: effect_def upload_csv_to_bq_def emit_def self_counter_simps)
        next
          case (Inr d')
          let ?u = "upload_df_to_bq en ?w1 d' folder_name file_name"
          from upload_df_to_bq_effect [OF c, of en ?w1 d' file_name]
          obtain new where n: "events (snd ?u) = events ?w1 @ new"
            "cls_files_added (snd ?u) = cls_files_added ?w1"
            "cls_counter (snd ?u) = cls_counter ?w1"
            "shared_drive_name (snd ?u) = shared_drive_name ?w1"
            "dataset (snd ?u) = dataset ?w1"
            "project (snd ?u) = project ?w1"
            "\<forall>e\<in>set new. \<not> is_summary e"
            "throttle_ok (self_counter ?w1) False new"
            "attempts new = 1"
            "no_value_error en \<longrightarrow> recorded_names new = loaded_names new"
            "case fst ?u of
               Return u \<Rightarrow> recorded_names new = [file_name]
                 \<and> self_counter (snd ?u) = self_counter ?w1 + 1
             | Raise e \<Rightarrow> recorded_names new = []"
            by blast
          have e: "upload_csv_to_bq en w folder_name file_name file_id =
              (case ?u of
                 (Raise e, w2) \<Rightarrow> (Raise e, w2)
               | (Return u, w2) \<Rightarrow>
                   (Return (), w2\<lparr> cls_files_added := self_files_added w2 @ [file_name] \<rparr>))"
            using g False Inr by (simp add: upload_csv_to_bq_def)
          show ?thesis
          proof (cases "fst ?u")
            case (Raise x)
            then have "upload_csv_to_bq en w folder_name file_name file_id = (Raise x, snd ?u)"
              using e by (simp add: split_def)
            with n Raise show ?thesis
              by (intro exI [of _ "Download file_id # new"])
                 (simp add: effect_def emit_def self_counter_simps)
          next
            case (Return x)
            then have "upload_csv_to_bq en w folder_name file_name file_id =
                (Return (), (snd ?u)\<lparr> cls_files_added := self_files_added (snd ?u) @ [file_name] \<rparr>)"
              using e by (simp add: split_def)
            with n Return show ?thesis
              by (intro exI [of _ "Download file_id # new"])
                 (simp add: effect_def emit_def self_counter_simps self_files_added_def)
          qed
        qed
      qed
    qed
  qed
qed

lemma process_item_effect:
  "\<exists>new. effect en w (process_item en folders_dict it w) new"
proof (cases "gate_target folders_dict it")
  case None
  then have "snd (process_item en folders_dict it w) = w"
    by (auto simp: gate_target_def process_item_def split: if_splits list.splits option.splits)
  then show ?thesis
    by (intro exI [of _ "[]"]) (simp add: effect_def)
next
  case (Some p)
  obtain folder_name file_name where p: "p = (folder_name, file_name)"
    by (cases p)
  let ?q = "Query (table_path w folder_name) file_name"
  let ?g = "if_table_not_in_bq en w folder_name file_name"
  have sg: "snd ?g = emit ?q w"
    by (rule if_table_not_in_bq_world)
  have pi: "process_item en folders_dict it w =
           (case ?g of
              (Raise e, w1) \<Rightarrow> (Raise e, w1)
            | (Return proceed, w1) \<Rightarrow>
                (if proceed then upload_csv_to_bq en w1 folder_name file_name (item_id it)
                 else (Return (), w1)))"
    using Some p by (simp add: process_item_gate)
  have q: "effect en w (Return (), emit ?q w) [?q]"
    by (simp add: effect_def emit_def self_counter_simps)
  show ?thesis
  proof (cases "fst ?g")
    case (Raise e)
    then have "process_item en folders_dict it w = (Raise e, emit ?q w)"
      using pi sg by (simp add: split_def)
    then show ?thesis
      by (intro exI [of _ "[?q]"]) (simp add: effect_def emit_def self_counter_simps)
  next
    case (Return proceed)
    show ?thesis
    proof (cases proceed)
      case True
      with Return have "process_item en folders_dict it w =
          upload_csv_to_bq en (emit ?q w) folder_name file_name (item_id it)"
        using pi sg by (simp add: split_def)
      moreover obtain new where
        "effect en (emit ?q w) (upload_csv_to_bq en (emit ?q w) folder_name file_name (item_id it)) new"
        using upload_csv_to_bq_effect by blast
      ultimately show ?thesis
        using effect_trans [OF q] by metis
    next
      case False
      with Return have "process_item en folders_dict it w = (Return (), emit ?q w)"
        using pi sg by (simp add: split_def)
      with q show ?thesis by metis
    qed
  qed
qed

lemma items_loop_effect:
  "\<exists>new. effect en w (items_loop en folders_dict items w) new"
proof (induction items arbitrary: w)
  case Nil
  show ?case
    by (intro exI [of _ "[]"]) (simp add: effect_def)
next
  case (Cons it items)
  obtain new1 where n1: "effect en w (process_item en folders_dict it w) new1"
    using process_item_effect by blast
  show ?case
  proof (cases "fst (process_item en folders_dict it w)")
    case (Raise e)
    then have "items_loop en folders_dict (it # items) w = process_item en folders_dict it w"
      by (cases "process_item en folders_dict it w") simp
    with n1 show ?thesis by metis
  next
    case (Return u)
    let ?w1 = "snd (process_item en folders_dict it w)"
    from Return have p: "process_item en folders_dict it w = (Return (), ?w1)"
      by (cases "process_item en folders_dict it w") simp
    from Return have "items_loop en folders_dict (it # items) w = items_loop en folders_dict items ?w1"
      by (simp add: split_def)
    moreover obtain new2 where "effect en ?w1 (items_loop en folders_dict items ?w1) new2"
      using Cons.IH by blast
    ultimately show ?thesis
      using effect_trans [of en w ?w1 new1] n1 p by metis
  qed
qed


subsection \<open>The path of a file that is loaded\<close>

text \<open>The path of a new file whose download, preparation and load job all succeed: the
  sleep comes when the counter is a multiple of 5, the counter of the instance advances
  by one and the file name is appended to the list of the class.\<close>

lemma process_item_load_completes:
  assumes "gate_target fd it = Some (f, n)"
    and "bq_query en (events w) (table_path w f) n = Inr (Inr 0)"
    and "configs f = Some (Entry cfg)"
    and "read_csv en (events w @ [Query (table_path w f) n]) (item_id it) cfg = Inr d"
    and "\<not> df_empty d"
    and "prepare_df en d n f = Inr d'"
    and "load_job en
           (events w @ [Query (table_path w f) n, Download (item_id it)]
              @ (if self_counter w mod 5 = 0 then [Sleep 10] else []))
           (dataset w @ py ''.'' @ f)
           (declared_fields (translit en) f cfg @ timestamp_fields (translit en) cfg) d' = None"
  shows "process_item en fd it w =
           (Return (),
            w\<lparr> events := events w @ [Query (table_path w f) n, Download (item_id it)]
                  @ (if self_counter w mod 5 = 0 then [Sleep 10] else [])
                  @ [Load (dataset w @ py ''.'' @ f) n
                       (declared_fields (translit en) f cfg @ timestamp_fields (translit en) cfg)
                       d' None],
               inst_counter := Some (self_counter w + 1),
               cls_files_added := cls_files_added w @ [n] \<rparr>)"
proof -
  let ?w1 = "w\<lparr> events := events w @ [Query (table_path w f) n, Download (item_id it)] \<rparr>"
  let ?sch = "declared_fields (translit en) f cfg @ timestamp_fields (translit en) cfg"
  have g: "if_table_not_in_bq en w f n = (Return True, emit (Query (table_path w f) n) w)"
    using assms(2) by (simp add: if_table_not_in_bq_def Let_def)
  have s: "create_schema (translit en) configs f = Inr ?sch"
    using assms(3) by (rule create_schema_of_entry)
  have d: "get_df_from_file_id en (emit (Query (table_path w f) n) w) (item_id it) n f =
      (Return d, ?w1)"
    using assms(3,4) by (simp add: get_df_from_file_id_def emit_def)
  have u: "upload_df_to_bq en ?w1 d' f n =
      (Return (),
       w\<lparr> events := events w @ [Query (table_path w f) n, Download (item_id it)]
                  @ (if self_counter w mod 5 = 0 then [Sleep 10] else [])
                  @ [Load (dataset w @ py ''.'' @ f) n ?sch d' None],
          inst_counter := Some (self_counter w + 1) \<rparr>)"
  proof (cases "self_counter w mod 5 = 0")
    case True
    with assms(7) show ?thesis
      by (simp add: upload_df_to_bq_def s Let_def emit_def self_counter_simps)
  next
    case False
    with assms(7) show ?thesis
      by (simp add: upload_df_to_bq_def s Let_def emit_def self_counter_simps)
  qed
  have "upload_csv_to_bq en (emit (Query (table_path w f) n) w) f n (item_id it) =
      (Return (),
       w\<lparr> events := events w @ [Query (table_path w f) n, Download (item_id it)]
                  @ (if self_counter w mod 5 = 0 then [Sleep 10] else [])
                  @ [Load (dataset w @ py ''.'' @ f) n ?sch d' None],
          inst_counter := Some (self_counter w + 1),
          cls_files_added := cls_files_added w @ [n] \<rparr>)"
    using assms(5,6) by (simp add: upload_csv_to_bq_def d u self_files_added_def)
  then show ?thesis
    using assms(1) by (simp add: process_item_gate g)
qed

text \<open>The same path in the concrete environment, for any file listing.\<close>

lemma prepare_small_df:
  "prepare_df (two_files_env\<lparr> list_items := l \<rparr>) small_df n (py ''folder_1'') = Inr prepared_df"
  by (simp add: prepare_df_def two_files_env_def small_df_def prepared_df_def
      prepare_df_folder12_def Let_def clean_column_names_def
      clean_column_str_def chars_to_replace_def unidecode_def py_def)


lemma gate_target_files:
  "gate_target one_folder file_a = Some (py ''folder_1'', item_name file_a)"
  "gate_target one_folder file_b = Some (py ''folder_1'', item_name file_b)"
  by (simp_all add: gate_target_def one_folder_def file_a_def file_b_def all_folders_def py_def)

lemma two_files_step:
  assumes "gate_target fd it = Some (py ''folder_1'', item_name it)"
  shows "process_item (two_files_env\<lparr> list_items := l \<rparr>) fd it w =
           (Return (),
            w\<lparr> events := events w
                  @ [Query (table_path w (py ''folder_1'')) (item_name it), Download (item_id it)]
                  @ (if self_counter w mod 5 = 0 then [Sleep 10] else [])
                  @ [Load (dataset w @ py ''.'' @ py ''folder_1'') (item_name it)
                       folder1_schema prepared_df None],
               inst_counter := Some (self_counter w + 1),
               cls_files_added := cls_files_added w @ [item_name it] \<rparr>)"
proof -
  let ?en = "two_files_env\<lparr> list_items := l \<rparr>"
  have c: "configs (py ''folder_1'') = Some (Entry folder12_config)"
    by (simp add: configs_def py_def)
  have t: "translit ?en = latin1_sample"
    by (simp add: two_files_env_def)
  have "process_item ?en fd it w =
           (Return (),
            w\<lparr> events := events w
                  @ [Query (table_path w (py ''folder_1'')) (item_name it), Download (item_id it)]
                  @ (if self_counter w mod 5 = 0 then [Sleep 10] else [])
                  @ [Load (dataset w @ py ''.'' @ py ''folder_1'') (item_name it)
                       (declared_fields (translit ?en) (py ''folder_1'') folder12_config
                        @ timestamp_fields (translit ?en) folder12_config)
                       prepared_df None],
               inst_counter := Some (self_counter w + 1),
               cls_files_added := cls_files_added w @ [item_name it] \<rparr>)"
  proof (rule process_item_load_completes [OF assms _ c, where d = small_df])
    show "bq_query ?en (events w) (table_path w (py ''folder_1'')) (item_name it) = Inr (Inr 0)"
      by (simp add: two_files_env_def)
    show "read_csv ?en (events w @ [Query (table_path w (py ''folder_1'')) (item_name it)])
        (item_id it) folder12_config = Inr small_df"
      by (simp add: two_files_env_def)
    show "\<not> df_empty small_df"
      by (simp add: df_empty_def small_df_def)
    show "prepare_df ?en small_df (item_name it) (py ''folder_1'') = Inr prepared_df"
      by (rule prepare_small_df)
    show "load_job ?en
           (events w @ [Query (table_path w (py ''folder_1'')) (item_name it), Download (item_id it)]
              @ (if self_counter w mod 5 = 0 then [Sleep 10] else []))
           (dataset w @ py ''.'' @ py ''folder_1'')
           (declared_fields (translit ?en) (py ''folder_1'') folder12_config
            @ timestamp_fields (translit ?en) folder12_config) prepared_df = None"
      by (simp add: two_files_env_def)
  qed
  then show ?thesis
    by (simp add: t folder1_schema_def)
qed

lemma two_files_discovery:
  "get_shared_drive_id (two_files_env\<lparr> list_items := l \<rparr>)
     (DriveConnector (py ''drive'') ds proj w) = Return (Some (py ''d1''))"
  "list_folders two_files_env (Some (py ''d1'')) =
     Inr [\<lparr> fd_id = py ''p1'', fd_name = py ''folder_1'' \<rparr>]"
  by (simp_all add: get_shared_drive_id_def two_files_env_def DriveConnector_def)

lemma two_files_run:
  assumes "l (Some (py ''d1'')) = Inr items" and "items \<noteq> []"
  shows "run_transfer (two_files_env\<lparr> list_items := l \<rparr>)
           (DriveConnector (py ''drive'') ds proj w) =
         iterate_through_items (two_files_env\<lparr> list_items := l \<rparr>)
           (DriveConnector (py ''drive'') ds proj w) items one_folder"
  using assms
  by (simp add: run_transfer_def two_files_discovery one_folder_def del: folders_dict_of.simps)


subsection \<open>Whole runs\<close>

lemma confirmation_is_summary: "is_summary (confirmation files)"
  by (simp add: confirmation_def)

lemma iterate_through_items_effect:
  "\<exists>new. effect en w (items_loop en folders_dict items w) new
     \<and> iterate_through_items en w items folders_dict =
         (case fst (items_loop en folders_dict items w) of
            Raise e \<Rightarrow> (Raise e, snd (items_loop en folders_dict items w))
          | Return u \<Rightarrow>
              (Return (),
               emit (confirmation (cls_files_added w @ recorded_names new))
                 (snd (items_loop en folders_dict items w))))"
proof -
  obtain new where n: "effect en w (items_loop en folders_dict items w) new"
    using items_loop_effect by blast
  then have "cls_files_added (snd (items_loop en folders_dict items w)) =
      cls_files_added w @ recorded_names new"
    by (simp add: effect_def)
  then have "iterate_through_items en w items folders_dict =
         (case fst (items_loop en folders_dict items w) of
            Raise e \<Rightarrow> (Raise e, snd (items_loop en folders_dict items w))
          | Return u \<Rightarrow>
              (Return (),
               emit (confirmation (cls_files_added w @ recorded_names new))
                 (snd (items_loop en folders_dict items w))))"
    by (simp add: iterate_through_items_def split_def send_confirmation_mail_def
        self_files_added_def split: outcome.splits)
  with n show ?thesis by blast
qed

lemma run_transfer_discovered:
  "discovered_items en w = [] \<Longrightarrow> snd (run_transfer en w) = w"
  "discovered_items en w \<noteq> [] \<Longrightarrow>
     \<exists>folders_dict. run_transfer en w =
        iterate_through_items en w (discovered_items en w) folders_dict"
  by (auto simp: discovered_items_def run_transfer_def split: outcome.splits sum.splits)

text \<open>A run with at least one item that returns ends with the summary mail, which lists
  the list of the class: the names it held before, then the names recorded in the run.\<close>

lemma run_summary_recorded:
  assumes "discovered_items en w \<noteq> []"
    and "run_transfer en w = (Return u, w')"
  shows "\<exists>new. events w' = events w @ new @ [confirmation (cls_files_added w @ recorded_names new)]
           \<and> filter is_summary new = []
           \<and> cls_files_added w' = cls_files_added w @ recorded_names new
           \<and> (no_value_error en \<longrightarrow> recorded_names new = loaded_names new)"
proof -
  obtain fd where r: "run_transfer en w = iterate_through_items en w (discovered_items en w) fd"
    using run_transfer_discovered(2) [OF assms(1)] by blast
  let ?l = "items_loop en fd (discovered_items en w) w"
  obtain new where n: "effect en w ?l new"
    and i: "iterate_through_items en w (discovered_items en w) fd =
         (case fst ?l of
            Raise e \<Rightarrow> (Raise e, snd ?l)
          | Return u \<Rightarrow>
              (Return (), emit (confirmation (cls_files_added w @ recorded_names new)) (snd ?l)))"
    using iterate_through_items_effect by blast
  from assms(2) r i have w': "w' = emit (confirmation (cls_files_added w @ recorded_names new)) (snd ?l)"
    by (cases "fst ?l") simp_all
  from n have f: "filter is_summary new = []"
    by (simp add: effect_def filter_empty_conv)
  from n have "events (snd ?l) = events w @ new"
    "cls_files_added (snd ?l) = cls_files_added w @ recorded_names new"
    "no_value_error en \<longrightarrow> recorded_names new = loaded_names new"
    by (simp_all add: effect_def)
  with w' f show ?thesis
    by (intro exI [of _ new]) (simp add: emit_def)
qed

lemma recorded_names_confirmation: "recorded_names (new @ [confirmation fs]) = recorded_names new"
  by (simp add: recorded_names_append confirmation_def)

text \<open>Any run, returning or not, extends the list of the class by the names recorded in
  its events and leaves the counter of the class as it is.\<close>

lemma run_transfer_state:
  "\<exists>new. events (snd (run_transfer en w)) = events w @ new
     \<and> cls_files_added (snd (run_transfer en w)) = cls_files_added w @ recorded_names new
     \<and> cls_counter (snd (run_transfer en w)) = cls_counter w"
proof (cases "discovered_items en w = []")
  case True
  then show ?thesis
    by (intro exI [of _ "[]"]) (simp add: run_transfer_discovered(1))
next
  case False
  then obtain fd where r: "run_transfer en w =
      iterate_through_items en w (discovered_items en w) fd"
    using run_transfer_discovered(2) by blast
  let ?l = "items_loop en fd (discovered_items en w) w"
  obtain new where n: "effect en w ?l new"
    and i: "iterate_through_items en w (discovered_items en w) fd =
       (case fst ?l of
          Raise e \<Rightarrow> (Raise e, snd ?l)
        | Return u \<Rightarrow>
            (Return (), emit (confirmation (cls_files_added w @ recorded_names new)) (snd ?l)))"
    using iterate_through_items_effect by blast
  show ?thesis
  proof (cases "fst ?l")
    case (Raise e)
    with n r i show ?thesis
      by (intro exI [of _ new]) (simp add: effect_def)
  next
    case (Return x)
    with n r i show ?thesis
      by (intro exI [of _ "new @ [confirmation (cls_files_added w @ recorded_names new)]"])
         (simp add: effect_def emit_def recorded_names_confirmation)
  qed
qed

text \<open>The run of \<open>two_files_env\<close>, for a connector whose class counter is 1.\<close>

lemma DriveConnector_fields:
  "shared_drive_name (DriveConnector name ds proj w) = name"
  "dataset (DriveConnector name ds proj w) = ds"
  "project (DriveConnector name ds proj w) = proj"
  "events (DriveConnector name ds proj w) = events w"
  "cls_files_added (DriveConnector name ds proj w) = cls_files_added w"
  "cls_counter (DriveConnector name ds proj w) = cls_counter w"
  "inst_counter (DriveConnector name ds proj w) = None"
  by (simp_all add: DriveConnector_def)

lemma two_files_env_items: "two_files_env\<lparr> list_items := list_items two_files_env \<rparr> = two_files_env"
  by simp

lemma two_files_result:
  assumes "cls_counter w = 1"
  shows "run_transfer two_files_env (DriveConnector (py ''drive'') ds proj w) =
     (Return (),
      (DriveConnector (py ''drive'') ds proj w)
        \<lparr> events := events w @ two_files_trace ds proj
             @ [confirmation (cls_files_added w @ [py ''a.csv'', py ''b.csv''])],
          inst_counter := Some 3,
          cls_files_added := cls_files_added w @ [py ''a.csv'', py ''b.csv''] \<rparr>)"
proof -
  let ?w = "DriveConnector (py ''drive'') ds proj w"
  have l: "list_items two_files_env (Some (py ''d1'')) = Inr [file_a, file_b]"
    by (simp add: two_files_env_def)
  have "run_transfer (two_files_env\<lparr> list_items := list_items two_files_env \<rparr>) ?w =
      iterate_through_items (two_files_env\<lparr> list_items := list_items two_files_env \<rparr>) ?w
        [file_a, file_b] one_folder"
    by (rule two_files_run [where l = "list_items two_files_env" and items = "[file_a, file_b]"])
       (simp_all add: l)
  then have r: "run_transfer two_files_env ?w =
      iterate_through_items two_files_env ?w [file_a, file_b] one_folder"
    by (simp only: two_files_env_items)
  have s: "process_item two_files_env one_folder it v =
           (Return (),
            v\<lparr> events := events v
                  @ [Query (table_path v (py ''folder_1'')) (item_name it), Download (item_id it)]
                  @ (if self_counter v mod 5 = 0 then [Sleep 10] else [])
                  @ [Load (dataset v @ py ''.'' @ py ''folder_1'') (item_name it)
                       folder1_schema prepared_df None],
               inst_counter := Some (self_counter v + 1),
               cls_files_added := cls_files_added v @ [item_name it] \<rparr>)"
    if "gate_target one_folder it = Some (py ''folder_1'', item_name it)" for it v
    using two_files_step [OF that, of "list_items two_files_env" v]
    by (simp only: two_files_env_items)
  have n: "item_name file_a = py ''a.csv''" "item_name file_b = py ''b.csv''"
    "item_id file_a = py ''ia''" "item_id file_b = py ''ib''"
    by (simp_all add: file_a_def file_b_def)
  have c: "self_counter ?w = 1"
    using assms by (simp add: self_counter_def DriveConnector_def)
  show ?thesis
    unfolding r
    by (simp add: iterate_through_items_def s gate_target_files self_counter_simps c n
        send_confirmation_mail_def self_files_added_def emit_def two_files_trace_def
        table_path_def DriveConnector_fields)
qed


subsection \<open>The summary mail, the throttle and the shared state\<close>

text \<open>
  Claim C2, as amended. In every run whose discovery yields at least one item, that is
  not ended by an uncaught exception and in which no load job raises ValueError, exactly
  one end-of-run summary mail is sent, as the last event of the run. Its body lists the
  names that \<open>files_added\<close> held when the run started (none in a new process) followed
  by exactly the names of the files whose load completed in this run, in order; a file
  that the dedup gate skipped or whose table was empty is not listed. When the list is
  empty the mail is the one with the subject \<open>No file uploaded\<close>.
\<close>

theorem summary_sent_once:
  assumes "discovered_items en w \<noteq> []"
    and "run_transfer en w = (Return u, w')"
    and "no_value_error en"
  shows "\<exists>new. events w' = events w @ new @ [confirmation (cls_files_added w @ loaded_names new)]
           \<and> filter is_summary (new @ [confirmation (cls_files_added w @ loaded_names new)]) =
               [confirmation (cls_files_added w @ loaded_names new)]
           \<and> cls_files_added w' = cls_files_added w @ loaded_names new"
proof -
  from run_summary_recorded [OF assms(1,2)] assms(3) obtain new where
    "events w' = events w @ new @ [confirmation (cls_files_added w @ loaded_names new)]"
    "filter is_summary new = []"
    "cls_files_added w' = cls_files_added w @ loaded_names new"
    by auto
  then show ?thesis
    by (intro exI [of _ new]) (simp add: confirmation_is_summary)
qed

theorem summary_sent_once_witness:
  "discovered_items two_files_env first_connector \<noteq> []
   \<and> fst (run_transfer two_files_env first_connector) = Return ()
   \<and> no_value_error two_files_env
   \<and> (\<exists>new. events (snd (run_transfer two_files_env first_connector)) =
               events first_connector @ new
                 @ [confirmation (cls_files_added first_connector @ loaded_names new)]
           \<and> filter is_summary
                 (new @ [confirmation (cls_files_added first_connector @ loaded_names new)]) =
               [confirmation (cls_files_added first_connector @ loaded_names new)]
           \<and> cls_files_added (snd (run_transfer two_files_env first_connector)) =
               cls_files_added first_connector @ loaded_names new)
   \<and> cls_files_added (snd (run_transfer two_files_env first_connector)) =
       [py ''a.csv'', py ''b.csv'']"
proof -
  have r: "run_transfer two_files_env first_connector =
      (Return (), snd (run_transfer two_files_env first_connector))"
    and f: "cls_files_added (snd (run_transfer two_files_env first_connector)) =
       [py ''a.csv'', py ''b.csv'']"
    unfolding first_connector_def
    by (simp_all add: two_files_result module_loaded_def)
  have d: "discovered_items two_files_env first_connector \<noteq> []"
    by (simp add: discovered_items_def first_connector_def two_files_discovery(2)
        two_files_discovery(1) [where l = "list_items two_files_env", simplified]
        two_files_env_def [THEN arg_cong, of list_items])
  have v: "no_value_error two_files_env"
    by (simp add: no_value_error_def two_files_env_def)
  from r have "fst (run_transfer two_files_env first_connector) = Return ()"
    by (metis fst_conv)
  with summary_sent_once [OF d r v] d v f show ?thesis
    by blast
qed

text \<open>
  Claim C2 as stated says that every run sends exactly one summary. When the file
  listing is empty, \<open>run_transfer\<close> returns without calling
  \<open>iterate_through_items\<close>: the run sends no mail at all.
\<close>

theorem no_items_no_summary:
  "run_transfer no_files_env first_connector = (Return (), first_connector)
   \<and> filter is_summary (events (snd (run_transfer no_files_env first_connector))) = []"
proof -
  have "run_transfer no_files_env first_connector = (Return (), first_connector)"
    by (simp add: run_transfer_def no_files_env_def get_shared_drive_id_def two_files_env_def)
  then show ?thesis
    by (simp add: first_connector_fields)
qed

text \<open>
  Claim C5. In a run of a new connector, the trace of events obeys the throttle policy
  counted from 1 (\<open>throttle_ok 1 False\<close>): every sleep lasts 10 units and is followed
  at once by a load attempt, and the load attempt number k comes right after a sleep
  exactly when 5 divides k. The counter runs over all folders.
\<close>

theorem throttle_every_fifth:
  "throttle_ok 1 False
     (events (snd (run_transfer en (DriveConnector name ds proj module_loaded))))"
proof -
  let ?w = "DriveConnector name ds proj module_loaded"
  have c: "self_counter ?w = 1" "events ?w = []"
    by (simp_all add: self_counter_def DriveConnector_def module_loaded_def)
  show ?thesis
  proof (cases "discovered_items en ?w = []")
    case True
    then show ?thesis
      using c by (simp add: run_transfer_discovered(1))
  next
    case False
    then obtain fd where r: "run_transfer en ?w =
        iterate_through_items en ?w (discovered_items en ?w) fd"
      using run_transfer_discovered(2) by blast
    let ?l = "items_loop en fd (discovered_items en ?w) ?w"
    obtain new where n: "effect en ?w ?l new"
      and i: "iterate_through_items en ?w (discovered_items en ?w) fd =
         (case fst ?l of
            Raise e \<Rightarrow> (Raise e, snd ?l)
          | Return u \<Rightarrow>
              (Return (), emit (confirmation (cls_files_added ?w @ recorded_names new)) (snd ?l)))"
      using iterate_through_items_effect by blast
    from n c have t: "throttle_ok 1 False new" "events (snd ?l) = new"
      by (simp_all add: effect_def)
    have "throttle_ok 1 False (new @ [confirmation fs])" for fs
      using t(1) by (rule throttle_ok_append) (simp add: confirmation_def)
    with t r i show ?thesis
      by (cases "fst ?l") (simp_all add: emit_def)
  qed
qed

theorem throttle_every_fifth_witness:
  "throttle_ok 1 False (events (snd (run_transfer six_files_env first_connector)))
   \<and> sleeps_and_loads (events (snd (run_transfer six_files_env first_connector))) =
       [False, False, False, False, True, False, False]"
proof -
  have "run_transfer six_files_env first_connector =
      iterate_through_items six_files_env first_connector
        [file_a, file_b, file_a, file_b, file_a, file_b] one_folder"
    unfolding six_files_env_def first_connector_def
    by (rule two_files_run) simp_all
  then have "sleeps_and_loads (events (snd (run_transfer six_files_env first_connector))) =
       [False, False, False, False, True, False, False]"
    by (simp add: iterate_through_items_def six_files_env_def two_files_step gate_target_files
        self_counter_simps first_connector_fields self_counter_def send_confirmation_mail_def
        emit_def confirmation_def)
  moreover have "throttle_ok 1 False (events (snd (run_transfer six_files_env first_connector)))"
    unfolding first_connector_def by (rule throttle_every_fifth)
  ultimately show ?thesis
    by (rule conjI [rotated])
qed

text \<open>
  Claim C10, as amended. \<open>files_added\<close> is an attribute of the class, and the methods
  mutate that one list: a second connector made in the same process after a run of the
  first starts with the names that the first run recorded, and they are listed in its
  summary mail. \<open>counter\<close> is not shared: \<open>self.counter += 1\<close> assigns an attribute of
  the instance and leaves the attribute of the class at 1, so the second connector
  starts with the counter 1, not with the throttle count of the first run.
\<close>

theorem second_instance_state:
  assumes "w1 = snd (run_transfer en1 (DriveConnector n1 d1 p1 module_loaded))"
    and "w2 = DriveConnector n2 d2 p2 w1"
  shows "self_files_added w2 = recorded_names (events w1)
         \<and> self_counter w2 = 1
         \<and> (discovered_items en2 w2 \<noteq> [] \<and> run_transfer en2 w2 = (Return u, w3) \<longrightarrow>
              (\<exists>new. events w3 = events w2 @ new
                 @ [confirmation (recorded_names (events w1) @ recorded_names new)]))"
proof -
  let ?w0 = "DriveConnector n1 d1 p1 module_loaded"
  have z: "events ?w0 = []" "cls_files_added ?w0 = []" "cls_counter ?w0 = 1"
    by (simp_all add: DriveConnector_def module_loaded_def)
  obtain new where "events w1 = events ?w0 @ new"
    "cls_files_added w1 = cls_files_added ?w0 @ recorded_names new"
    "cls_counter w1 = cls_counter ?w0"
    using run_transfer_state [of en1 ?w0] assms(1) by auto
  with z have f: "cls_files_added w1 = recorded_names (events w1)" and c: "cls_counter w1 = 1"
    by simp_all
  have a: "self_files_added w2 = recorded_names (events w1)"
    using f assms(2) by (simp add: self_files_added_def DriveConnector_def)
  have b: "self_counter w2 = 1"
    using c assms(2) by (simp add: self_counter_def DriveConnector_def)
  have "\<exists>new. events w3 = events w2 @ new
                 @ [confirmation (recorded_names (events w1) @ recorded_names new)]"
    if "discovered_items en2 w2 \<noteq> []" "run_transfer en2 w2 = (Return u, w3)"
  proof -
    from run_summary_recorded [OF that] obtain new where
      "events w3 = events w2 @ new @ [confirmation (cls_files_added w2 @ recorded_names new)]"
      by blast
    moreover have "cls_files_added w2 = recorded_names (events w1)"
      using a by (simp add: self_files_added_def)
    ultimately show ?thesis by auto
  qed
  with a b show ?thesis by blast
qed

theorem second_instance_state_witness:
  "self_files_added second_connector = [py ''a.csv'', py ''b.csv'']
   \<and> recorded_names (events (snd (run_transfer two_files_env first_connector))) =
       [py ''a.csv'', py ''b.csv'']
   \<and> self_counter second_connector = 1
   \<and> discovered_items two_files_env second_connector \<noteq> []
   \<and> fst (run_transfer two_files_env second_connector) = Return ()
   \<and> (\<exists>new. events (snd (run_transfer two_files_env second_connector)) =
          events second_connector @ new
            @ [confirmation ([py ''a.csv'', py ''b.csv''] @ recorded_names new)])"
proof -
  let ?w1 = "snd (run_transfer two_files_env first_connector)"
  have w1: "?w1 = snd (run_transfer two_files_env
      (DriveConnector (py ''drive'') (py ''ds'') (py ''proj'') module_loaded))"
    by (simp add: first_connector_def)
  have w2: "second_connector = DriveConnector (py ''drive'') (py ''ds'') (py ''proj'') ?w1"
    by (simp add: second_connector_def)
  have c1: "cls_counter ?w1 = 1" and f1: "cls_files_added ?w1 = [py ''a.csv'', py ''b.csv'']"
    unfolding first_connector_def
    by (simp_all add: two_files_result module_loaded_def DriveConnector_fields)
  have r: "run_transfer two_files_env second_connector =
      (Return (), snd (run_transfer two_files_env second_connector))"
    unfolding second_connector_def by (simp add: two_files_result [OF c1])
  have d: "discovered_items two_files_env second_connector \<noteq> []"
    unfolding second_connector_def
    by (simp add: discovered_items_def two_files_discovery(2)
        two_files_discovery(1) [where l = "list_items two_files_env", simplified]
        two_files_env_def [THEN arg_cong, of list_items])
  note t = second_instance_state [OF w1 w2, of two_files_env "()"
      "snd (run_transfer two_files_env second_connector)"]
  from t have a: "self_files_added second_connector = recorded_names (events ?w1)"
    and b: "self_counter second_connector = 1"
    by simp_all
  have s: "self_files_added second_connector = [py ''a.csv'', py ''b.csv'']"
    by (simp add: self_files_added_def w2 DriveConnector_fields f1)
  from t d r have "\<exists>new. events (snd (run_transfer two_files_env second_connector)) =
          events second_connector @ new
            @ [confirmation (recorded_names (events ?w1) @ recorded_names new)]"
    by blast
  moreover from r have "fst (run_transfer two_files_env second_connector) = Return ()"
    by (metis fst_conv)
  ultimately show ?thesis
    using a b d s by simp
qed

text \<open>
  Claim C10 as stated says that the second connector starts with the throttle count of
  the first run. After the first run has loaded two files its counter is 3; the counter
  of a connector made afterwards is 1.
\<close>

theorem second_instance_counter_is_one:
  "self_counter (snd (run_transfer two_files_env first_connector)) = 3
   \<and> self_counter second_connector = 1"
proof -
  have "self_counter (snd (run_transfer two_files_env first_connector)) = 3"
    and c1: "cls_counter (snd (run_transfer two_files_env first_connector)) = 1"
    unfolding first_connector_def
    by (simp_all add: two_files_result module_loaded_def DriveConnector_fields
        self_counter_simps)
  moreover have "self_counter second_connector = 1"
    by (simp add: second_connector_def self_counter_def DriveConnector_fields c1)
  ultimately show ?thesis by simp
qed

end
